theory Spec2Isabelle
  imports Main "HOL-Library.Word"
begin

section \<open>Python values and exceptions\<close>

text \<open>
  The two scripts of the repository are \<^verbatim>\<open>torchdynamo_poc/torchbench.py\<close> (benchmark
  driver with the compile adapter and the graph output normalizer) and
  \<^verbatim>\<open>torchscript_e2e_main.py\<close> (test driver with the recursive result conversion).
  Exceptions are values: a function that can raise returns \<open>error + 'a\<close>, with \<open>Inl\<close>
  the exception.
\<close>

datatype error =
    AssertionError string
  | ValueError string
  | Exception string

text \<open>
  The contents of an array (device resident, numpy or torch): its shape and its elements.
  No function of the repository inspects them.
\<close>

datatype buffer = Buffer (shape: "nat list") (contents: "int list")

text \<open>
  Python runtime values, by dynamic type. A float is carried as its 64-bit pattern. A dict
  is the list of its items in insertion order. \<open>PObject c\<close> is an instance of any other
  class \<open>c\<close>.
\<close>

datatype pyobj =
    PNone
  | PBool bool
  | PInt int
  | PFloat "64 word"
  | PStr string
  | DeviceArray buffer
  | Ndarray buffer
  | Tensor buffer
  | PTuple "pyobj list"
  | PList "pyobj list"
  | PDict "(pyobj \<times> pyobj) list"
  | PObject string

section \<open>torchbench.py: the graph output normalizer\<close>

text \<open>
  An argument of a \<^verbatim>\<open>torch.fx\<close> node: a reference to another node, an immediate, or a
  tuple or list of arguments. \<^verbatim>\<open>isinstance(node_arg, tuple)\<close> holds for \<open>Tuple\<close> only.
\<close>

datatype argument =
    NodeRef string
  | IntArg int
  | NoneArg
  | Tuple "argument list"
  | ListArg "argument list"

record node =
  name :: string
  op :: string
  target :: string
  args :: "argument list"

text \<open>
  A \<^verbatim>\<open>GraphModule\<close>: the nodes of its graph, and the graph from which its generated
  \<^verbatim>\<open>forward\<close> code was last produced. \<^verbatim>\<open>recompile()\<close> regenerates the code from the
  current graph.
\<close>

record graph_module =
  nodes :: "node list"
  code :: "node list"

definition recompile :: "graph_module \<Rightarrow> graph_module" where
  "recompile gm = gm\<lparr>code := nodes gm\<rparr>"

text \<open>
  Graph modules are mutable objects that caller and callee share, so they live in a store
  and are passed by reference.
\<close>

type_synonym ref = nat
type_synonym store = "ref \<Rightarrow> graph_module"

text \<open>
  The \<^verbatim>\<open>for node in fx_g.graph.nodes\<close> loop of \<^verbatim>\<open>_unwrap_single_tuple_return\<close>
  (lines 34 to 43). It returns the node list as the in-place assignments to
  \<^verbatim>\<open>node.args\<close> leave it, and how the loop was left: by the failing assertion, by the
  early \<^verbatim>\<open>return None\<close>, or by running to its end with the value of
  \<^verbatim>\<open>unwrapped_tuple\<close>.
\<close>

datatype loop_exit =
    Raised error
  | Returned_None
  | Fell_through bool

fun unwrap_loop :: "node list \<Rightarrow> bool \<Rightarrow> node list \<times> loop_exit" where
  "unwrap_loop [] unwrapped_tuple = ([], Fell_through unwrapped_tuple)"
| "unwrap_loop (node # rest) unwrapped_tuple =
     (if op node = ''output'' then
        (if length (args node) \<noteq> 1
         then (node # rest, Raised (AssertionError ''Output node must have a single argument''))
         else (case hd (args node) of
                 Tuple node_arg \<Rightarrow>
                   (if length node_arg = 1
                    then (case unwrap_loop rest True of
                            (rest', e) \<Rightarrow> (node\<lparr>args := [hd node_arg]\<rparr> # rest', e))
                    else (node # rest, Returned_None))
               | _ \<Rightarrow>
                   (case unwrap_loop rest unwrapped_tuple of
                      (rest', e) \<Rightarrow> (node # rest', e))))
      else (case unwrap_loop rest unwrapped_tuple of
              (rest', e) \<Rightarrow> (node # rest', e)))"

text \<open>
  \<^verbatim>\<open>_unwrap_single_tuple_return(fx_g)\<close>. \<^verbatim>\<open>fx_g.graph.lint()\<close> belongs to
  \<^verbatim>\<open>torch.fx\<close>, not to the repository: it is the parameter \<open>lint\<close>, which tells whether the
  check accepts a node list; when it does not, its exception propagates. The result is the
  store after the call and either the exception or the returned
  \<^verbatim>\<open>Optional[GraphModule]\<close>, a reference.
\<close>

definition unwrap_single_tuple_return ::
  "(node list \<Rightarrow> bool) \<Rightarrow> store \<Rightarrow> ref \<Rightarrow> store \<times> (error + ref option)" where
  "unwrap_single_tuple_return lint \<sigma> fx_g =
     (case unwrap_loop (nodes (\<sigma> fx_g)) False of
        (ns, e) \<Rightarrow>
          (let \<sigma>1 = \<sigma>(fx_g := (\<sigma> fx_g)\<lparr>nodes := ns\<rparr>) in
           case e of
             Raised err \<Rightarrow> (\<sigma>1, Inl err)
           | Returned_None \<Rightarrow> (\<sigma>1, Inr None)
           | Fell_through unwrapped_tuple \<Rightarrow>
               (if \<not> unwrapped_tuple then (\<sigma>1, Inr None)
                else if \<not> lint ns then (\<sigma>1, Inl (Exception ''graph lint failed''))
                else (\<sigma>1(fx_g := recompile (\<sigma>1 fx_g)), Inr (Some fx_g)))))"

text \<open>The output nodes of a graph module, in graph order.\<close>

definition output_nodes :: "graph_module \<Rightarrow> node list" where
  "output_nodes gm = filter (\<lambda>n. op n = ''output'') (nodes gm)"

text \<open>Whether an argument is a tuple at all, and whether it is a one-element tuple.\<close>

definition is_group :: "argument \<Rightarrow> bool" where
  "is_group a = (case a of Tuple xs \<Rightarrow> True | _ \<Rightarrow> False)"

definition single_group :: "argument \<Rightarrow> bool" where
  "single_group a = (case a of Tuple xs \<Rightarrow> length xs = 1 | _ \<Rightarrow> False)"

section \<open>torchbench.py: the compile adapter\<close>

type_synonym forward_fn = "pyobj list \<Rightarrow> error + pyobj"

text \<open>
  The libraries the adapter calls (\<^verbatim>\<open>torch.fx\<close>, \<^verbatim>\<open>torch.jit\<close>, \<^verbatim>\<open>torch_mlir\<close>,
  \<^verbatim>\<open>iree_torch\<close>) are parameters; each call may raise. Their intermediate products
  are opaque: the type variables.
\<close>

record ('ts, 'mlir, 'vmfb) toolchain =
  graph_lint :: "node list \<Rightarrow> bool"
  jit_trace :: "graph_module \<Rightarrow> pyobj list \<Rightarrow> error + 'ts"
  jit_script :: "graph_module \<Rightarrow> pyobj list \<Rightarrow> error + 'ts"
  mlir_compile :: "'ts \<Rightarrow> pyobj list \<Rightarrow> error + 'mlir"
  compile_to_vmfb :: "'mlir \<Rightarrow> error + 'vmfb"
  load_vmfb :: "'vmfb \<Rightarrow> error + forward_fn"

text \<open>Lines 59 to 64 of \<^verbatim>\<open>torch_mlir_compiler\<close>: from the graph module to the loaded module.\<close>

definition compile_and_load ::
  "('ts, 'mlir, 'vmfb) toolchain \<Rightarrow> graph_module \<Rightarrow> pyobj list \<Rightarrow> bool \<Rightarrow> error + forward_fn" where
  "compile_and_load tc fx_graph example_inputs use_tracing =
     (let ts_compiler = (if use_tracing then jit_trace tc else jit_script tc) in
      case ts_compiler fx_graph example_inputs of
        Inl err \<Rightarrow> Inl err
      | Inr ts_graph \<Rightarrow>
          (case mlir_compile tc ts_graph example_inputs of
             Inl err \<Rightarrow> Inl err
           | Inr linalg_module \<Rightarrow>
               (case compile_to_vmfb tc linalg_module of
                  Inl err \<Rightarrow> Inl err
                | Inr compiled_module \<Rightarrow> load_vmfb tc compiled_module)))"

text \<open>The closure \<^verbatim>\<open>forward\<close> (lines 66 to 69), with the two variables it captures.\<close>

definition forward :: "forward_fn \<Rightarrow> bool \<Rightarrow> pyobj list \<Rightarrow> error + pyobj" where
  "forward loaded_module was_unwrapped inputs =
     (case loaded_module inputs of
        Inl err \<Rightarrow> Inl err
      | Inr result \<Rightarrow>
          (let result = (if result = PNone then PTuple [] else result)
           in Inr (if was_unwrapped then PTuple [result] else result)))"

definition torch_mlir_compiler ::
  "('ts, 'mlir, 'vmfb) toolchain \<Rightarrow> store \<Rightarrow> ref \<Rightarrow> pyobj list \<Rightarrow> bool
     \<Rightarrow> store \<times> (error + forward_fn)" where
  "torch_mlir_compiler tc \<sigma> fx_graph example_inputs use_tracing =
     (case unwrap_single_tuple_return (graph_lint tc) \<sigma> fx_graph of
        (\<sigma>', Inl err) \<Rightarrow> (\<sigma>', Inl err)
      | (\<sigma>', Inr fx_graph_unwrapped) \<Rightarrow>
          (let was_unwrapped = (fx_graph_unwrapped \<noteq> None);
               fx_graph = (case fx_graph_unwrapped of Some g \<Rightarrow> g | None \<Rightarrow> fx_graph)
           in case compile_and_load tc (\<sigma>' fx_graph) example_inputs use_tracing of
                Inl err \<Rightarrow> (\<sigma>', Inl err)
              | Inr loaded_module \<Rightarrow> (\<sigma>', Inr (forward loaded_module was_unwrapped))))"

text \<open>
  The group-or-bare shape of a graph output argument and of a runtime value: the number of
  elements of a group, \<open>None\<close> for a bare value.
\<close>

definition arg_arity :: "argument \<Rightarrow> nat option" where
  "arg_arity a = (case a of Tuple xs \<Rightarrow> Some (length xs) | _ \<Rightarrow> None)"

definition value_arity :: "pyobj \<Rightarrow> nat option" where
  "value_arity v = (case v of PTuple vs \<Rightarrow> Some (length vs) | _ \<Rightarrow> None)"

text \<open>
  What a loaded artifact returns has the shape of the output argument of the graph it was
  compiled from; an artifact without results returns no value, which stands for the empty
  group.
\<close>

definition returns_shape_of :: "pyobj \<Rightarrow> argument \<Rightarrow> bool" where
  "returns_shape_of result a =
     (if result = PNone then arg_arity a = Some 0 else value_arity result = arg_arity a)"

section \<open>torchbench.py: the benchmark driver\<close>

text \<open>
  How a call ends: it returns, an exception propagates out of it, or \<^verbatim>\<open>sys.exit\<close> was
  called (\<^verbatim>\<open>SystemExit\<close> is not an \<^verbatim>\<open>Exception\<close>, so \<^verbatim>\<open>except Exception\<close> lets it
  pass). The interpreter ends with status 0 when the script returns, with the status given
  to \<^verbatim>\<open>sys.exit\<close>, and with status 1 on an uncaught exception.
\<close>

datatype 'a control =
    Return 'a
  | Raise error
  | SysExit int

definition exit_status :: "'a control \<Rightarrow> int" where
  "exit_status c = (case c of Return v \<Rightarrow> 0 | Raise err \<Rightarrow> 1 | SysExit n \<Rightarrow> n)"

record bench_args =
  model :: string
  train :: bool
  iters :: int
  batchsize :: int
  trace :: bool
  exit_on_error :: bool

type_synonym compiler_fn = "store \<Rightarrow> ref \<Rightarrow> pyobj list \<Rightarrow> store \<times> forward_fn control"

text \<open>The callback \<^verbatim>\<open>compiler\<close> that \<^verbatim>\<open>main\<close> defines (lines 105 to 112).\<close>

definition compiler ::
  "bench_args \<Rightarrow> ('ts, 'mlir, 'vmfb) toolchain \<Rightarrow> compiler_fn" where
  "compiler cl_args tc \<sigma> graph inputs =
     (if exit_on_error cl_args
      then (case torch_mlir_compiler tc \<sigma> graph inputs (trace cl_args) of
              (\<sigma>', Inr fwd) \<Rightarrow> (\<sigma>', Return fwd)
            | (\<sigma>', Inl err) \<Rightarrow> (\<sigma>', SysExit 1))
      else (case torch_mlir_compiler tc \<sigma> graph inputs (trace cl_args) of
              (\<sigma>', Inr fwd) \<Rightarrow> (\<sigma>', Return fwd)
            | (\<sigma>', Inl err) \<Rightarrow> (\<sigma>', Raise err)))"

text \<open>
  Modelled from the spec: the graph-capture mechanism \<^verbatim>\<open>torchdynamo.optimize\<close> and the
  model zoo's \<^verbatim>\<open>model.invoke\<close>, which are not among the sources. A model stands for the
  graphs captured when it is invoked, each with its example inputs; inside the scope the
  compiler callback is invoked with each graph and its inputs and returns a callable,
  which is then called. What the callback or the callable raises propagates.
\<close>

type_synonym captured = "(ref \<times> pyobj list) list"

fun invoke_in_scope :: "captured \<Rightarrow> compiler_fn \<Rightarrow> store \<Rightarrow> store \<times> unit control" where
  "invoke_in_scope [] compiler_cb \<sigma> = (\<sigma>, Return ())"
| "invoke_in_scope ((graph, inputs) # frames) compiler_cb \<sigma> =
     (case compiler_cb \<sigma> graph inputs of
        (\<sigma>', Return fwd) \<Rightarrow>
          (case fwd inputs of
             Inl err \<Rightarrow> (\<sigma>', Raise err)
           | Inr result \<Rightarrow> invoke_in_scope frames compiler_cb \<sigma>')
      | (\<sigma>', Raise err) \<Rightarrow> (\<sigma>', Raise err)
      | (\<sigma>', SysExit n) \<Rightarrow> (\<sigma>', SysExit n))"

text \<open>
  \<^verbatim>\<open>run(func, num_iter, compiler)\<close>: \<open>func\<close> is the call of the model inside the capture
  scope. \<^verbatim>\<open>range(num_iter)\<close> is empty for a count below one. The clock readings and the
  printed duration are left out.
\<close>

fun run_loop ::
  "(compiler_fn \<Rightarrow> store \<Rightarrow> store \<times> unit control) \<Rightarrow> nat \<Rightarrow> compiler_fn \<Rightarrow> store
     \<Rightarrow> store \<times> unit control" where
  "run_loop func 0 compiler_cb \<sigma> = (\<sigma>, Return ())"
| "run_loop func (Suc k) compiler_cb \<sigma> =
     (case func compiler_cb \<sigma> of
        (\<sigma>', Return u) \<Rightarrow> run_loop func k compiler_cb \<sigma>'
      | (\<sigma>', Raise err) \<Rightarrow> (\<sigma>', Raise err)
      | (\<sigma>', SysExit n) \<Rightarrow> (\<sigma>', SysExit n))"

definition run ::
  "(compiler_fn \<Rightarrow> store \<Rightarrow> store \<times> unit control) \<Rightarrow> int \<Rightarrow> compiler_fn \<Rightarrow> store
     \<Rightarrow> store \<times> unit control" where
  "run func num_iter compiler_cb \<sigma> = run_loop func (nat num_iter) compiler_cb \<sigma>"

text \<open>
  \<^verbatim>\<open>main\<close> of \<^verbatim>\<open>torchbench.py\<close>, after the arguments are parsed.
  \<^verbatim>\<open>load_model_by_name\<close> yields the model class or nothing; the class is called with
  the test mode and the batch size and may raise. Console output is left out.
\<close>

definition torchbench_main ::
  "(string \<Rightarrow> (string \<Rightarrow> int \<Rightarrow> error + captured) option)
     \<Rightarrow> ('ts, 'mlir, 'vmfb) toolchain \<Rightarrow> bench_args \<Rightarrow> store \<Rightarrow> store \<times> unit control" where
  "torchbench_main load_model_by_name tc cl_args \<sigma> =
     (case load_model_by_name (model cl_args) of
        None \<Rightarrow> (\<sigma>, Return ())
      | Some Model \<Rightarrow>
          (let test = (if train cl_args then ''train'' else ''eval'') in
           case Model test (batchsize cl_args) of
             Inl err \<Rightarrow> (\<sigma>, Raise err)
           | Inr m \<Rightarrow> run (invoke_in_scope m) (iters cl_args) (compiler cl_args tc) \<sigma>))"

section \<open>torchscript_e2e_main.py: the recursive conversion\<close>

text \<open>
  \<^verbatim>\<open>recursively_convert_to_numpy\<close>, with the generator over a tuple or list and the
  comprehension over the items of a dict as the two auxiliary functions: elements are
  converted from left to right and the first exception propagates. \<^verbatim>\<open>np.asarray\<close>
  belongs to numpy and the runtime's array class, not to the repository: it is the
  parameter \<open>np_asarray\<close>, which gives the contents of the host array or raises (as it does
  for a device array that is not marked for implicit transfer to the host); the call at
  line 59 is unguarded, so what it raises propagates. A \<^verbatim>\<open>bool\<close> is an instance of
  \<^verbatim>\<open>int\<close>. The message of the repository's own exception is given without the
  formatted object.
\<close>

fun recursively_convert_to_numpy :: "(buffer \<Rightarrow> error + buffer) \<Rightarrow> pyobj \<Rightarrow> error + pyobj"
  and convert_elements :: "(buffer \<Rightarrow> error + buffer) \<Rightarrow> pyobj list \<Rightarrow> error + pyobj list"
  and convert_items ::
    "(buffer \<Rightarrow> error + buffer) \<Rightarrow> (pyobj \<times> pyobj) list \<Rightarrow> error + (pyobj \<times> pyobj) list" where
  "recursively_convert_to_numpy np_asarray (DeviceArray b) =
     (case np_asarray b of Inl err \<Rightarrow> Inl err | Inr h \<Rightarrow> Inr (Ndarray h))"
| "recursively_convert_to_numpy np_asarray (PTuple xs) =
     (case convert_elements np_asarray xs of Inl err \<Rightarrow> Inl err | Inr ys \<Rightarrow> Inr (PTuple ys))"
| "recursively_convert_to_numpy np_asarray (PList xs) =
     (case convert_elements np_asarray xs of Inl err \<Rightarrow> Inl err | Inr ys \<Rightarrow> Inr (PList ys))"
| "recursively_convert_to_numpy np_asarray (PDict kvs) =
     (case convert_items np_asarray kvs of Inl err \<Rightarrow> Inl err | Inr kvs' \<Rightarrow> Inr (PDict kvs'))"
| "recursively_convert_to_numpy np_asarray (PStr s) = Inr (PStr s)"
| "recursively_convert_to_numpy np_asarray (PFloat f) = Inr (PFloat f)"
| "recursively_convert_to_numpy np_asarray (PInt i) = Inr (PInt i)"
| "recursively_convert_to_numpy np_asarray (PBool b) = Inr (PBool b)"
| "recursively_convert_to_numpy np_asarray PNone = Inl (Exception ''Unexpected Python type'')"
| "recursively_convert_to_numpy np_asarray (Ndarray b) = Inl (Exception ''Unexpected Python type'')"
| "recursively_convert_to_numpy np_asarray (Tensor b) = Inl (Exception ''Unexpected Python type'')"
| "recursively_convert_to_numpy np_asarray (PObject c) = Inl (Exception ''Unexpected Python type'')"
| "convert_elements np_asarray [] = Inr []"
| "convert_elements np_asarray (x # xs) =
     (case recursively_convert_to_numpy np_asarray x of
        Inl err \<Rightarrow> Inl err
      | Inr y \<Rightarrow>
          (case convert_elements np_asarray xs of Inl err \<Rightarrow> Inl err | Inr ys \<Rightarrow> Inr (y # ys)))"
| "convert_items np_asarray [] = Inr []"
| "convert_items np_asarray ((k, v) # kvs) =
     (case recursively_convert_to_numpy np_asarray v of
        Inl err \<Rightarrow> Inl err
      | Inr v' \<Rightarrow>
          (case convert_items np_asarray kvs of
             Inl err \<Rightarrow> Inl err
           | Inr kvs' \<Rightarrow> Inr ((k, v') # kvs')))"

text \<open>
  The leaves of a result structure, from left to right: the values that are not a tuple,
  a list or a dict. The keys of a dict are not leaves.
\<close>

fun leaves :: "pyobj \<Rightarrow> pyobj list"
  and leaves_elements :: "pyobj list \<Rightarrow> pyobj list"
  and leaves_items :: "(pyobj \<times> pyobj) list \<Rightarrow> pyobj list" where
  "leaves (PTuple xs) = leaves_elements xs"
| "leaves (PList xs) = leaves_elements xs"
| "leaves (PDict kvs) = leaves_items kvs"
| "leaves PNone = [PNone]"
| "leaves (PBool b) = [PBool b]"
| "leaves (PInt i) = [PInt i]"
| "leaves (PFloat f) = [PFloat f]"
| "leaves (PStr s) = [PStr s]"
| "leaves (DeviceArray b) = [DeviceArray b]"
| "leaves (Ndarray b) = [Ndarray b]"
| "leaves (Tensor b) = [Tensor b]"
| "leaves (PObject c) = [PObject c]"
| "leaves_elements [] = []"
| "leaves_elements (x # xs) = leaves x @ leaves_elements xs"
| "leaves_items [] = []"
| "leaves_items ((k, v) # kvs) = leaves v @ leaves_items kvs"

text \<open>
  The recognized leaf types: runtime-native array, string, float and integer
  (\<^verbatim>\<open>isinstance(o, int)\<close>, which holds for a \<^verbatim>\<open>bool\<close> too).
\<close>

definition recognized_leaf :: "pyobj \<Rightarrow> bool" where
  "recognized_leaf v =
     (case v of
        DeviceArray b \<Rightarrow> True
      | PStr s \<Rightarrow> True
      | PFloat f \<Rightarrow> True
      | PInt i \<Rightarrow> True
      | PBool b \<Rightarrow> True
      | _ \<Rightarrow> False)"

text \<open>
  Whether \<^verbatim>\<open>np.asarray\<close> returns for a leaf, should it be a device array; and what the
  specification says becomes of a leaf: an array turns into the portable array that
  \<^verbatim>\<open>np.asarray\<close> returns for it, the rest stays.
\<close>

definition transferable :: "(buffer \<Rightarrow> error + buffer) \<Rightarrow> pyobj \<Rightarrow> bool" where
  "transferable np_asarray v = (case v of DeviceArray b \<Rightarrow> \<not> isl (np_asarray b) | _ \<Rightarrow> True)"




section \<open>torchscript_e2e_main.py: the test driver\<close>

definition COMMON_TORCH_MLIR_LOWERING_XFAIL_SET :: "string set" where
  "COMMON_TORCH_MLIR_LOWERING_XFAIL_SET =
     {''MobilenetV3Module_basic'', ''QuantizedMLP_basic'', ''TableBatchEmbeddingModule_basic''}"

definition COMMON_RNG_XFAIL_SET :: "string set" where
  "COMMON_RNG_XFAIL_SET =
     {''DropoutTrainModule_basic'', ''UniformModule_basic'', ''UniformStaticModule_basic'',
      ''BernoulliModule_basic'', ''BernoulliZerosModule_basic'', ''BernoulliOnesModule_basic'',
      ''BernoulliFloatModule_basic'', ''BernoulliTensorModule_basic''}"

definition DYLIB_XFAIL_SET :: "string set" where
  "DYLIB_XFAIL_SET = COMMON_TORCH_MLIR_LOWERING_XFAIL_SET \<union> COMMON_RNG_XFAIL_SET"

definition VMVX_XFAIL_SET :: "string set" where
  "VMVX_XFAIL_SET = COMMON_TORCH_MLIR_LOWERING_XFAIL_SET \<union> COMMON_RNG_XFAIL_SET"

text \<open>
  The parsed command line: \<^verbatim>\<open>--config\<close> takes one of the two choices, so no other value
  reaches \<^verbatim>\<open>main\<close>.
\<close>

datatype config = Dylib | Vmvx

record e2e_args =
  config :: config
  filter_regex :: string
  verbose :: bool

text \<open>A registered test, of which the driver reads the unique name.\<close>

datatype test = Test (unique_name: string)

text \<open>
  Modelled from the spec: the test framework's results and \<^verbatim>\<open>report_results\<close>, which are
  not among the sources. A result is the test's name with whether it failed; a failure is
  expected when the name is in the expected-failure set and unexpected otherwise; the
  report says whether at least one unexpected failure occurred.
\<close>

datatype test_result = TestResult (result_name: string) (failed: bool)

definition report_results :: "test_result list \<Rightarrow> string set \<Rightarrow> bool \<Rightarrow> bool" where
  "report_results results xfail_set verbose_flag =
     list_ex (\<lambda>r. failed r \<and> result_name r \<notin> xfail_set) results"

text \<open>
  \<^verbatim>\<open>main\<close> of \<^verbatim>\<open>torchscript_e2e_main.py\<close>, after the arguments are parsed. The test
  registry is the list \<open>registry\<close>; \<^verbatim>\<open>re.match\<close> and \<^verbatim>\<open>run_tests\<close> are the parameters
  \<open>re_match\<close> (whether a pattern matches a name at its start) and \<open>run_tests\<close>, which gets
  the selected tests and the backend's name. Console output is left out.
\<close>

definition torchscript_e2e_main ::
  "(string \<Rightarrow> string \<Rightarrow> bool) \<Rightarrow> (test list \<Rightarrow> string \<Rightarrow> test_result list) \<Rightarrow> test list
     \<Rightarrow> e2e_args \<Rightarrow> unit control" where
  "torchscript_e2e_main re_match run_tests registry cl_args =
     (let tests = filter (\<lambda>t. re_match (filter_regex cl_args) (unique_name t)) registry in
      if length tests = 0 then SysExit 1
      else
        (let (iree_backend, xfail_set) =
               (case config cl_args of
                  Dylib \<Rightarrow> (''dylib'', DYLIB_XFAIL_SET)
                | Vmvx \<Rightarrow> (''vmvx'', VMVX_XFAIL_SET));
             results = run_tests tests iree_backend;
             failed_flag = report_results results xfail_set (verbose cl_args)
         in SysExit (if failed_flag then 1 else 0)))"

section \<open>Example inputs\<close>

text \<open>
  Small graphs for the concrete instances below: a placeholder \<open>x\<close> followed by one output
  node with the given arguments; a store that holds one graph module
  under every reference; a lint check that accepts every graph.
\<close>

definition placeholder_x :: node where
  "placeholder_x = \<lparr>name = ''x'', op = ''placeholder'', target = ''x'', args = []\<rparr>"

definition output_of :: "argument list \<Rightarrow> node" where
  "output_of as = \<lparr>name = ''output'', op = ''output'', target = ''output'', args = as\<rparr>"

definition graph_returning :: "argument list \<Rightarrow> graph_module" where
  "graph_returning as =
     \<lparr>nodes = [placeholder_x, output_of as], code = [placeholder_x, output_of as]\<rparr>"

definition store_of :: "graph_module \<Rightarrow> store" where
  "store_of gm r = gm"

definition lint_any :: "node list \<Rightarrow> bool" where
  "lint_any ns = True"

text \<open>
  For the test driver: a matcher for literal patterns (the pattern is a prefix of the
  name), a framework in which every selected test fails, and a registry of two tests, the
  first of which is an expected failure of both backends.
\<close>

definition match_prefix :: "string \<Rightarrow> string \<Rightarrow> bool" where
  "match_prefix pattern s = (take (length pattern) s = pattern)"

definition run_all_failing :: "test list \<Rightarrow> string \<Rightarrow> test_result list" where
  "run_all_failing tests backend = map (\<lambda>t. TestResult (unique_name t) True) tests"

definition example_registry :: "test list" where
  "example_registry = [Test ''UniformModule_basic'', Test ''AddModule_basic'']"

text \<open>
  For the compile adapter: a loaded module that returns its first input, or no value when
  called without inputs; a tool chain in which every step succeeds and which loads that
  module; and one whose lowering step rejects the program.
\<close>

definition echo_first :: forward_fn where
  "echo_first inputs = Inr (case inputs of [] \<Rightarrow> PNone | v # vs \<Rightarrow> v)"

definition toolchain_ok :: "(unit, unit, unit) toolchain" where
  "toolchain_ok =
     \<lparr>graph_lint = lint_any,
      jit_trace = (\<lambda>gm inputs. Inr ()),
      jit_script = (\<lambda>gm inputs. Inr ()),
      mlir_compile = (\<lambda>ts inputs. Inr ()),
      compile_to_vmfb = (\<lambda>m. Inr ()),
      load_vmfb = (\<lambda>v. Inr echo_first)\<rparr>"

definition toolchain_unsupported :: "(unit, unit, unit) toolchain" where
  "toolchain_unsupported =
     toolchain_ok\<lparr>mlir_compile := (\<lambda>ts inputs. Inl (Exception ''unsupported operation''))\<rparr>"

text \<open>
  For the recursive conversion: an \<^verbatim>\<open>np.asarray\<close> that copies every device array to
  the host, and one for device arrays that are not marked for implicit transfer.
\<close>

definition asarray_host :: "buffer \<Rightarrow> error + buffer" where
  "asarray_host b = Inr b"

definition asarray_refusing :: "buffer \<Rightarrow> error + buffer" where
  "asarray_refusing b = Inl (ValueError ''DeviceArray cannot be implicitly transferred to the host'')"

text \<open>
  For the benchmark driver: a model zoo that knows one model, which captures the graph
  under reference 0 with one tensor as input; and the parsed command line for a model name
  and a value of the exit-on-error flag, with one iteration and tracing.
\<close>

definition example_zoo :: "string \<Rightarrow> (string \<Rightarrow> int \<Rightarrow> error + captured) option" where
  "example_zoo model_name =
     (if model_name = ''resnet18''
      then Some (\<lambda>test batch_size. Inr [(0, [Tensor (Buffer [1] [7])])])
      else None)"

definition example_args :: "string \<Rightarrow> bool \<Rightarrow> bench_args" where
  "example_args model_name exit_flag =
     \<lparr>model = model_name, train = False, iters = 1, batchsize = 0, trace = True,
      exit_on_error = exit_flag\<rparr>"

section \<open>Properties of the normalizer loop\<close>

lemma argument_not_own_singleton: "x \<noteq> Tuple [x]"
proof
  assume "x = Tuple [x]"
  then have "size x = size (Tuple [x])" by simp
  then show False by simp
qed

lemma loop_no_output:
  "\<forall>n\<in>set ns. op n \<noteq> ''output'' \<Longrightarrow> unwrap_loop ns u = (ns, Fell_through u)"
  by (induction ns) auto

lemma loop_skip_prefix:
  "\<forall>n\<in>set pre. op n \<noteq> ''output'' \<Longrightarrow>
   unwrap_loop (pre @ rest) u = (case unwrap_loop rest u of (rest', e) \<Rightarrow> (pre @ rest', e))"
  by (induction pre) (auto split: prod.splits)

lemma loop_no_assert:
  assumes "\<forall>n\<in>set ns. op n = ''output'' \<longrightarrow> length (args n) = 1"
  shows "unwrap_loop ns u \<noteq> (ns', Raised err)"
  using assms
proof (induction ns arbitrary: u ns')
  case Nil
  then show ?case by simp
next
  case (Cons n ns)
  then have IH: "\<And>u ns'. unwrap_loop ns u \<noteq> (ns', Raised err)" by simp
  show ?case
  proof (cases "op n = ''output''")
    case False
    then show ?thesis using IH [of u] by (auto split: prod.splits)
  next
    case True
    with Cons.prems have l: "length (args n) = 1" by simp
    show ?thesis
    proof (cases "hd (args n)")
      case (Tuple xs)
      then show ?thesis using True l IH [of True] by (auto split: prod.splits)
    qed (use True l IH [of u] in \<open>auto split: prod.splits\<close>)
  qed
qed

lemma loop_fell_through_changed:
  "unwrap_loop ns u = (ns', Fell_through v) \<Longrightarrow> (u \<longrightarrow> v) \<and> (ns' = ns \<longrightarrow> v = u)"
proof (induction ns arbitrary: u ns' v)
  case Nil
  then show ?case by simp
next
  case (Cons n ns)
  note IH = Cons.IH
  show ?case
  proof (cases "op n = ''output''")
    case False
    then obtain r where r: "unwrap_loop ns u = (r, Fell_through v)" "ns' = n # r"
      using Cons.prems by (auto split: prod.splits)
    from IH [OF r(1)] r(2) show ?thesis by simp
  next
    case True
    show ?thesis
    proof (cases "length (args n) = 1")
      case False
      then show ?thesis using True Cons.prems by simp
    next
      case l: True
      show ?thesis
      proof (cases "hd (args n)")
        case (Tuple xs)
        show ?thesis
        proof (cases "length xs = 1")
          case False
          then show ?thesis using True l Tuple Cons.prems by simp
        next
          case one: True
          then obtain r where r: "unwrap_loop ns True = (r, Fell_through v)"
              "ns' = n\<lparr>args := [hd xs]\<rparr> # r"
            using True l Tuple Cons.prems by (auto split: prod.splits)
          from one obtain y where xs: "xs = [y]" by (cases xs) auto
          from l Tuple xs have "args n = [Tuple [y]]" by (cases "args n") auto
          then have "args (n\<lparr>args := [hd xs]\<rparr>) \<noteq> args n"
            using xs argument_not_own_singleton [of y] by auto
          then have "n\<lparr>args := [hd xs]\<rparr> \<noteq> n" by metis
          with IH [OF r(1)] r(2) show ?thesis by simp
        qed
      next
        case (NodeRef s)
        then obtain r where r: "unwrap_loop ns u = (r, Fell_through v)" "ns' = n # r"
          using True l Cons.prems by (auto split: prod.splits)
        from IH [OF r(1)] r(2) show ?thesis by simp
      next
        case (IntArg i)
        then obtain r where r: "unwrap_loop ns u = (r, Fell_through v)" "ns' = n # r"
          using True l Cons.prems by (auto split: prod.splits)
        from IH [OF r(1)] r(2) show ?thesis by simp
      next
        case NoneArg
        then obtain r where r: "unwrap_loop ns u = (r, Fell_through v)" "ns' = n # r"
          using True l Cons.prems by (auto split: prod.splits)
        from IH [OF r(1)] r(2) show ?thesis by simp
      next
        case (ListArg ys)
        then obtain r where r: "unwrap_loop ns u = (r, Fell_through v)" "ns' = n # r"
          using True l Cons.prems by (auto split: prod.splits)
        from IH [OF r(1)] r(2) show ?thesis by simp
      qed
    qed
  qed
qed

lemma single_output_split:
  assumes "output_nodes gm = [out]"
  shows "\<exists>pre post. nodes gm = pre @ out # post \<and> (\<forall>n\<in>set pre. op n \<noteq> ''output'') \<and>
           op out = ''output'' \<and> (\<forall>n\<in>set post. op n \<noteq> ''output'')"
proof -
  from assms have "filter (\<lambda>n. op n = ''output'') (nodes gm) = [out]"
    by (simp add: output_nodes_def)
  then obtain pre post where *: "nodes gm = pre @ out # post" "\<forall>n\<in>set pre. \<not> op n = ''output''"
      "op out = ''output''" "[] = filter (\<lambda>n. op n = ''output'') post"
    by (auto simp only: filter_eq_Cons_iff)
  from *(4) have "filter (\<lambda>n. op n = ''output'') post = []" by simp
  then have "\<forall>n\<in>set post. op n \<noteq> ''output''"
    unfolding filter_empty_conv by simp
  with * show ?thesis by blast
qed

lemma loop_rewrite_single:
  assumes "\<forall>n\<in>set pre. op n \<noteq> ''output''" "\<forall>n\<in>set post. op n \<noteq> ''output''"
    and "op out = ''output''" "args out = [Tuple [x]]"
  shows "unwrap_loop (pre @ out # post) u = (pre @ out\<lparr>args := [x]\<rparr> # post, Fell_through True)"
proof -
  have "unwrap_loop (out # post) u = (out\<lparr>args := [x]\<rparr> # post, Fell_through True)"
    using assms(3,4) loop_no_output [OF assms(2), of True] by simp
  then show ?thesis
    using loop_skip_prefix [OF assms(1), of "out # post" u] by simp
qed


lemma loop_return_none_single:
  assumes "\<forall>n\<in>set pre. op n \<noteq> ''output''"
    and "op out = ''output''" "args out = [Tuple xs]" "length xs \<noteq> 1"
  shows "unwrap_loop (pre @ out # post) u = (pre @ out # post, Returned_None)"
proof -
  have "unwrap_loop (out # post) u = (out # post, Returned_None)"
    using assms(2-4) by simp
  then show ?thesis
    using loop_skip_prefix [OF assms(1), of "out # post" u] by simp
qed

lemma loop_bare_single:
  assumes "\<forall>n\<in>set pre. op n \<noteq> ''output''" "\<forall>n\<in>set post. op n \<noteq> ''output''"
    and "op out = ''output''" "args out = [a]" "\<not> is_group a"
  shows "unwrap_loop (pre @ out # post) u = (pre @ out # post, Fell_through u)"
proof -
  have "unwrap_loop (out # post) u = (out # post, Fell_through u)"
    using assms(3-5) loop_no_output [OF assms(2), of u]
    by (cases a) (simp_all add: is_group_def)
  then show ?thesis
    using loop_skip_prefix [OF assms(1), of "out # post" u] by simp
qed

lemma loop_frame:
  "unwrap_loop ns u = (ns', e) \<Longrightarrow>
     map op ns' = map op ns \<and> filter (\<lambda>n. op n \<noteq> ''output'') ns' = filter (\<lambda>n. op n \<noteq> ''output'') ns"
proof (induction ns arbitrary: u ns' e)
  case Nil
  then show ?case by simp
next
  case (Cons n ns)
  obtain r1 e1 where a: "unwrap_loop ns u = (r1, e1)" by (cases "unwrap_loop ns u")
  obtain r2 e2 where b: "unwrap_loop ns True = (r2, e2)" by (cases "unwrap_loop ns True")
  note IHa = Cons.IH [OF a] and IHb = Cons.IH [OF b]
  show ?case
  proof (cases "op n = ''output''")
    case False
    with Cons.prems a have "ns' = n # r1" by simp
    with IHa False show ?thesis by simp
  next
    case True
    show ?thesis
    proof (cases "length (args n) = 1")
      case False
      with True Cons.prems show ?thesis by simp
    next
      case l: True
      show ?thesis
      proof (cases "hd (args n)")
        case (Tuple xs)
        with True l Cons.prems b have "ns' = n # ns \<or> ns' = n\<lparr>args := [hd xs]\<rparr> # r2"
          by (simp split: if_splits)
        with IHb True show ?thesis by auto
      qed (use True l Cons.prems a IHa in auto)
    qed
  qed
qed

section \<open>The normalizer on graphs with one output node\<close>

lemma unwrap_returns_some:
  assumes "unwrap_single_tuple_return lint \<sigma> fx_g = (\<sigma>', Inr (Some g'))"
  shows "\<exists>ns. unwrap_loop (nodes (\<sigma> fx_g)) False = (ns, Fell_through True) \<and> lint ns \<and>
              g' = fx_g \<and> \<sigma>' = \<sigma>(fx_g := recompile ((\<sigma> fx_g)\<lparr>nodes := ns\<rparr>))"
proof -
  obtain ns e where l: "unwrap_loop (nodes (\<sigma> fx_g)) False = (ns, e)"
    by (cases "unwrap_loop (nodes (\<sigma> fx_g)) False")
  with assms show ?thesis
    by (cases e) (auto simp: unwrap_single_tuple_return_def Let_def split: if_splits)
qed

lemma unwrap_none_unchanged:
  assumes "unwrap_loop (nodes (\<sigma> fx_g)) False = (nodes (\<sigma> fx_g), e)"
    and "e = Returned_None \<or> e = Fell_through False"
  shows "unwrap_single_tuple_return lint \<sigma> fx_g = (\<sigma>, Inr None)"
  using assms by (auto simp: unwrap_single_tuple_return_def)

lemma eval_single:
  "unwrap_single_tuple_return lint_any (store_of (graph_returning [Tuple [a]])) 0 =
     ((store_of (graph_returning [Tuple [a]]))
        (0 := \<lparr>nodes = [placeholder_x, output_of [a]], code = [placeholder_x, output_of [a]]\<rparr>),
      Inr (Some 0))"
  by (simp add: unwrap_single_tuple_return_def store_of_def graph_returning_def placeholder_x_def
      output_of_def lint_any_def recompile_def)

lemma unwrap_raises:
  assumes "snd (unwrap_loop (nodes (\<sigma> fx_g)) False) = Raised err"
  shows "snd (unwrap_single_tuple_return lint \<sigma> fx_g) = Inl err"
proof -
  obtain ns e where l: "unwrap_loop (nodes (\<sigma> fx_g)) False = (ns, e)"
    by (cases "unwrap_loop (nodes (\<sigma> fx_g)) False")
  with assms have "e = Raised err" by simp
  with l show ?thesis by (simp add: unwrap_single_tuple_return_def)
qed

lemma unwrap_assertion_from_loop:
  assumes "snd (unwrap_single_tuple_return lint \<sigma> fx_g) = Inl (AssertionError m)"
  shows "\<exists>ns. unwrap_loop (nodes (\<sigma> fx_g)) False = (ns, Raised (AssertionError m))"
proof -
  obtain ns e where l: "unwrap_loop (nodes (\<sigma> fx_g)) False = (ns, e)"
    by (cases "unwrap_loop (nodes (\<sigma> fx_g)) False")
  with assms have "e = Raised (AssertionError m)"
    by (cases e) (auto simp: unwrap_single_tuple_return_def Let_def split: if_splits)
  with l show ?thesis by simp
qed

text \<open>
  Claim C2. When the argument of the graph's output node is a one-element tuple (and the
  library's lint check accepts the rewritten graph), the normalizer returns the graph
  module, not \<open>None\<close>; the output node of the graph then carries the sole element of the
  tuple as its argument, every other node is as before, and the module was recompiled from
  the rewritten graph.
\<close>

theorem single_group_is_unwrapped:
  assumes "output_nodes (\<sigma> fx_g) = [out]" and "args out = [Tuple [x]]"
    and "lint (map (\<lambda>n. if op n = ''output'' then n\<lparr>args := [x]\<rparr> else n) (nodes (\<sigma> fx_g)))"
  shows "snd (unwrap_single_tuple_return lint \<sigma> fx_g) = Inr (Some fx_g) \<and>
         output_nodes (fst (unwrap_single_tuple_return lint \<sigma> fx_g) fx_g) = [out\<lparr>args := [x]\<rparr>] \<and>
         nodes (fst (unwrap_single_tuple_return lint \<sigma> fx_g) fx_g) =
           map (\<lambda>n. if op n = ''output'' then n\<lparr>args := [x]\<rparr> else n) (nodes (\<sigma> fx_g)) \<and>
         code (fst (unwrap_single_tuple_return lint \<sigma> fx_g) fx_g) =
           nodes (fst (unwrap_single_tuple_return lint \<sigma> fx_g) fx_g)"
proof -
  from single_output_split [OF assms(1)] obtain pre post where
    split: "nodes (\<sigma> fx_g) = pre @ out # post" "\<forall>n\<in>set pre. op n \<noteq> ''output''"
      "op out = ''output''" "\<forall>n\<in>set post. op n \<noteq> ''output''"
    by blast
  let ?ns = "pre @ out\<lparr>args := [x]\<rparr> # post"
  have loop: "unwrap_loop (nodes (\<sigma> fx_g)) False = (?ns, Fell_through True)"
    using loop_rewrite_single [OF split(2) split(4) split(3) assms(2)] split(1) by simp
  have m: "map (\<lambda>n. if op n = ''output'' then n\<lparr>args := [x]\<rparr> else n) (nodes (\<sigma> fx_g)) = ?ns"
    using split by (simp add: map_idI)
  with assms(3) have lint: "lint ?ns" by simp
  have res: "unwrap_single_tuple_return lint \<sigma> fx_g =
      ((\<sigma>(fx_g := (\<sigma> fx_g)\<lparr>nodes := ?ns\<rparr>))(fx_g := recompile ((\<sigma> fx_g)\<lparr>nodes := ?ns\<rparr>)),
       Inr (Some fx_g))"
    using loop lint by (simp add: unwrap_single_tuple_return_def)
  have o: "filter (\<lambda>n. op n = ''output'') ?ns = [out\<lparr>args := [x]\<rparr>]"
    using split by (simp add: filter_empty_conv)
  show ?thesis
    unfolding res using m o by (simp add: recompile_def output_nodes_def)
qed

theorem single_group_is_unwrapped_witness:
  "output_nodes (store_of (graph_returning [Tuple [NodeRef ''x'']]) 0) =
     [output_of [Tuple [NodeRef ''x'']]] \<and>
   args (output_of [Tuple [NodeRef ''x'']]) = [Tuple [NodeRef ''x'']] \<and>
   lint_any (map (\<lambda>n. if op n = ''output'' then n\<lparr>args := [NodeRef ''x'']\<rparr> else n)
               (nodes (store_of (graph_returning [Tuple [NodeRef ''x'']]) 0))) \<and>
   snd (unwrap_single_tuple_return lint_any (store_of (graph_returning [Tuple [NodeRef ''x'']])) 0) =
     Inr (Some 0) \<and>
   output_nodes
     (fst (unwrap_single_tuple_return lint_any (store_of (graph_returning [Tuple [NodeRef ''x'']])) 0) 0) =
     [output_of [NodeRef ''x'']]"
proof -
  have h1: "output_nodes (store_of (graph_returning [Tuple [NodeRef ''x'']]) 0) =
      [output_of [Tuple [NodeRef ''x'']]]"
    by (simp add: output_nodes_def store_of_def graph_returning_def placeholder_x_def output_of_def)
  have h2: "args (output_of [Tuple [NodeRef ''x'']]) = [Tuple [NodeRef ''x'']]"
    by (simp add: output_of_def)
  have h3: "lint_any (map (\<lambda>n. if op n = ''output'' then n\<lparr>args := [NodeRef ''x'']\<rparr> else n)
               (nodes (store_of (graph_returning [Tuple [NodeRef ''x'']]) 0)))"
    by (simp add: lint_any_def)
  have "output_of [Tuple [NodeRef ''x'']]\<lparr>args := [NodeRef ''x'']\<rparr> = output_of [NodeRef ''x'']"
    by (simp add: output_of_def)
  with single_group_is_unwrapped
      [where \<sigma> = "store_of (graph_returning [Tuple [NodeRef ''x'']])" and fx_g = 0 and lint = lint_any,
       OF h1 h2 h3] h1 h2 h3
  show ?thesis by simp
qed

text \<open>
  Claim C3. When the argument of the graph's output node is a tuple of two or more
  elements, the normalizer returns \<open>None\<close> and the store is the one it was given: no node
  argument is assigned, and neither lint nor recompile has run.
\<close>

theorem multi_group_is_left_alone:
  assumes "output_nodes (\<sigma> fx_g) = [out]" and "args out = [Tuple xs]" and "2 \<le> length xs"
  shows "unwrap_single_tuple_return lint \<sigma> fx_g = (\<sigma>, Inr None)"
proof -
  from single_output_split [OF assms(1)] obtain pre post where
    split: "nodes (\<sigma> fx_g) = pre @ out # post" "\<forall>n\<in>set pre. op n \<noteq> ''output''"
      "op out = ''output''"
    by blast
  from assms(3) have "length xs \<noteq> 1" by simp
  from loop_return_none_single [OF split(2) split(3) assms(2) this]
  have "unwrap_loop (nodes (\<sigma> fx_g)) False = (nodes (\<sigma> fx_g), Returned_None)"
    using split(1) by simp
  then show ?thesis by (simp add: unwrap_single_tuple_return_def)
qed

theorem multi_group_is_left_alone_witness:
  "output_nodes (store_of (graph_returning [Tuple [NodeRef ''x'', NodeRef ''x'']]) 0) =
     [output_of [Tuple [NodeRef ''x'', NodeRef ''x'']]] \<and>
   args (output_of [Tuple [NodeRef ''x'', NodeRef ''x'']]) = [Tuple [NodeRef ''x'', NodeRef ''x'']] \<and>
   2 \<le> length [NodeRef ''x'', NodeRef ''x''] \<and>
   unwrap_single_tuple_return lint_any (store_of (graph_returning [Tuple [NodeRef ''x'', NodeRef ''x'']])) 0 =
     (store_of (graph_returning [Tuple [NodeRef ''x'', NodeRef ''x'']]), Inr None)"
proof -
  have h1: "output_nodes (store_of (graph_returning [Tuple [NodeRef ''x'', NodeRef ''x'']]) 0) =
     [output_of [Tuple [NodeRef ''x'', NodeRef ''x'']]]"
    by (simp add: output_nodes_def store_of_def graph_returning_def placeholder_x_def output_of_def)
  have h2: "args (output_of [Tuple [NodeRef ''x'', NodeRef ''x'']]) = [Tuple [NodeRef ''x'', NodeRef ''x'']]"
    by (simp add: output_of_def)
  have h3: "2 \<le> length [NodeRef ''x'', NodeRef ''x'']" by simp
  from multi_group_is_left_alone
      [where \<sigma> = "store_of (graph_returning [Tuple [NodeRef ''x'', NodeRef ''x'']])" and fx_g = 0
         and lint = lint_any, OF h1 h2 h3] h1 h2 h3
  show ?thesis by simp
qed

text \<open>
  Claim C4, as amended. When the argument of the graph's output node is a bare value (not
  a tuple), the normalizer returns \<open>None\<close> and leaves the store as it was. Applied again
  to a graph it has just rewritten, it returns \<open>None\<close> and changes nothing provided the
  element that the rewrite exposed is not itself a one-element tuple.
\<close>

theorem bare_output_not_rewritten:
  assumes "output_nodes (\<sigma> fx_g) = [out]" and "args out = [a]"
  shows "(\<not> is_group a \<longrightarrow> unwrap_single_tuple_return lint \<sigma> fx_g = (\<sigma>, Inr None)) \<and>
         (\<forall>x \<sigma>'. a = Tuple [x] \<and> \<not> single_group x \<and>
                  unwrap_single_tuple_return lint \<sigma> fx_g = (\<sigma>', Inr (Some fx_g)) \<longrightarrow>
                  unwrap_single_tuple_return lint \<sigma>' fx_g = (\<sigma>', Inr None))"
proof -
  from single_output_split [OF assms(1)] obtain pre post where
    split: "nodes (\<sigma> fx_g) = pre @ out # post" "\<forall>n\<in>set pre. op n \<noteq> ''output''"
      "op out = ''output''" "\<forall>n\<in>set post. op n \<noteq> ''output''"
    by blast
  have first: "unwrap_single_tuple_return lint \<sigma> fx_g = (\<sigma>, Inr None)" if "\<not> is_group a"
  proof -
    from loop_bare_single [OF split(2) split(4) split(3) assms(2) that]
    have "unwrap_loop (nodes (\<sigma> fx_g)) False = (nodes (\<sigma> fx_g), Fell_through False)"
      using split(1) by simp
    then show ?thesis by (simp add: unwrap_single_tuple_return_def)
  qed
  have second: "unwrap_single_tuple_return lint \<sigma>' fx_g = (\<sigma>', Inr None)"
    if a: "a = Tuple [x]" and x: "\<not> single_group x"
      and r: "unwrap_single_tuple_return lint \<sigma> fx_g = (\<sigma>', Inr (Some fx_g))" for x \<sigma>'
  proof -
    let ?out = "out\<lparr>args := [x]\<rparr>"
    let ?ns = "pre @ ?out # post"
    from assms(2) a have ao: "args out = [Tuple [x]]" by simp
    have loop: "unwrap_loop (nodes (\<sigma> fx_g)) False = (?ns, Fell_through True)"
      using loop_rewrite_single [OF split(2) split(4) split(3) ao] split(1) by simp
    with unwrap_returns_some [OF r] have ns': "nodes (\<sigma>' fx_g) = ?ns"
      by (auto simp: recompile_def)
    have oo: "op ?out = ''output''" "args ?out = [x]" using split(3) by simp_all
    have "\<exists>e. unwrap_loop ?ns False = (?ns, e) \<and> (e = Returned_None \<or> e = Fell_through False)"
    proof (cases "is_group x")
      case False
      from loop_bare_single [OF split(2) split(4) oo False] show ?thesis by simp
    next
      case True
      then obtain xs where xs: "x = Tuple xs" by (cases x) (simp_all add: is_group_def)
      with x have "length xs \<noteq> 1" by (simp add: single_group_def)
      from loop_return_none_single [OF split(2) oo(1) _ this, of post False] oo(2) xs
      show ?thesis by simp
    qed
    then obtain e where "unwrap_loop (nodes (\<sigma>' fx_g)) False = (nodes (\<sigma>' fx_g), e)"
        "e = Returned_None \<or> e = Fell_through False"
      using ns' by auto
    then show ?thesis by (rule unwrap_none_unchanged)
  qed
  from first second show ?thesis by blast
qed

theorem bare_output_not_rewritten_witness:
  "output_nodes (store_of (graph_returning [NodeRef ''x'']) 0) = [output_of [NodeRef ''x'']] \<and>
   args (output_of [NodeRef ''x'']) = [NodeRef ''x''] \<and> \<not> is_group (NodeRef ''x'') \<and>
   unwrap_single_tuple_return lint_any (store_of (graph_returning [NodeRef ''x''])) 0 =
     (store_of (graph_returning [NodeRef ''x'']), Inr None) \<and>
   output_nodes (store_of (graph_returning [Tuple [NodeRef ''x'']]) 0) =
     [output_of [Tuple [NodeRef ''x'']]] \<and>
   args (output_of [Tuple [NodeRef ''x'']]) = [Tuple [NodeRef ''x'']] \<and>
   \<not> single_group (NodeRef ''x'') \<and>
   snd (unwrap_single_tuple_return lint_any (store_of (graph_returning [Tuple [NodeRef ''x'']])) 0) =
     Inr (Some 0) \<and>
   unwrap_single_tuple_return lint_any
     (fst (unwrap_single_tuple_return lint_any (store_of (graph_returning [Tuple [NodeRef ''x'']])) 0)) 0 =
     (fst (unwrap_single_tuple_return lint_any (store_of (graph_returning [Tuple [NodeRef ''x'']])) 0),
      Inr None)"
proof -
  let ?B = "store_of (graph_returning [NodeRef ''x''])"
  let ?G = "store_of (graph_returning [Tuple [NodeRef ''x'']])"
  have b1: "output_nodes (?B 0) = [output_of [NodeRef ''x'']]"
    by (simp add: output_nodes_def store_of_def graph_returning_def placeholder_x_def output_of_def)
  have b2: "args (output_of [NodeRef ''x'']) = [NodeRef ''x'']"
    by (simp add: output_of_def)
  have b3: "\<not> is_group (NodeRef ''x'')" by (simp add: is_group_def)
  have g1: "output_nodes (?G 0) = [output_of [Tuple [NodeRef ''x'']]]"
    by (simp add: output_nodes_def store_of_def graph_returning_def placeholder_x_def output_of_def)
  have g2: "args (output_of [Tuple [NodeRef ''x'']]) = [Tuple [NodeRef ''x'']]"
    by (simp add: output_of_def)
  have g3: "\<not> single_group (NodeRef ''x'')" by (simp add: single_group_def)
  have g4: "unwrap_single_tuple_return lint_any ?G 0 =
      (fst (unwrap_single_tuple_return lint_any ?G 0), Inr (Some 0))"
    by (simp add: eval_single)
  from bare_output_not_rewritten [where \<sigma> = ?B and fx_g = 0 and lint = lint_any, OF b1 b2] b3
  have first: "unwrap_single_tuple_return lint_any ?B 0 = (?B, Inr None)" by simp
  from bare_output_not_rewritten [where \<sigma> = ?G and fx_g = 0 and lint = lint_any, OF g1 g2] g3 g4
  have second: "unwrap_single_tuple_return lint_any (fst (unwrap_single_tuple_return lint_any ?G 0)) 0 =
      (fst (unwrap_single_tuple_return lint_any ?G 0), Inr None)"
    by blast
  from g4 have "snd (unwrap_single_tuple_return lint_any ?G 0) = Inr (Some 0)"
    by (metis snd_conv)
  with b1 b2 b3 g1 g2 g3 first second show ?thesis by blast
qed

text \<open>
  Without that proviso the second application is no no-op: for a graph that returns
  \<^verbatim>\<open>((x,),)\<close> the first call rewrites the output to \<^verbatim>\<open>(x,)\<close> and the second call
  rewrites it again and returns the graph module.
\<close>

theorem renormalizing_nested_group_counterexample:
  "snd (unwrap_single_tuple_return lint_any
          (store_of (graph_returning [Tuple [Tuple [NodeRef ''x'']]])) 0) = Inr (Some 0) \<and>
   snd (unwrap_single_tuple_return lint_any
          (fst (unwrap_single_tuple_return lint_any
                  (store_of (graph_returning [Tuple [Tuple [NodeRef ''x'']]])) 0)) 0) = Inr (Some 0) \<and>
   snd (unwrap_single_tuple_return lint_any
          (fst (unwrap_single_tuple_return lint_any
                  (store_of (graph_returning [Tuple [Tuple [NodeRef ''x'']]])) 0)) 0) \<noteq> Inr None"
  by (simp add: eval_single)
    (simp add: unwrap_single_tuple_return_def placeholder_x_def output_of_def lint_any_def)

text \<open>
  Claim C10. When the normalizer returns a graph module, it is the reference it was given,
  and the module under that reference has been changed in place: its node list differs
  from the one before the call (only in arguments of output nodes), lint has accepted it,
  and the generated code was recompiled from it. No other object of the store is touched.
\<close>

theorem rewrite_mutates_in_place:
  assumes "unwrap_single_tuple_return lint \<sigma> fx_g = (\<sigma>', Inr (Some g'))"
  shows "g' = fx_g \<and>
         nodes (\<sigma>' fx_g) \<noteq> nodes (\<sigma> fx_g) \<and>
         \<sigma>' fx_g \<noteq> \<sigma> fx_g \<and>
         lint (nodes (\<sigma>' fx_g)) \<and>
         code (\<sigma>' fx_g) = nodes (\<sigma>' fx_g) \<and>
         map op (nodes (\<sigma>' fx_g)) = map op (nodes (\<sigma> fx_g)) \<and>
         filter (\<lambda>n. op n \<noteq> ''output'') (nodes (\<sigma>' fx_g)) =
           filter (\<lambda>n. op n \<noteq> ''output'') (nodes (\<sigma> fx_g)) \<and>
         (\<forall>r. r \<noteq> fx_g \<longrightarrow> \<sigma>' r = \<sigma> r)"
proof -
  from unwrap_returns_some [OF assms] obtain ns where
    ns: "unwrap_loop (nodes (\<sigma> fx_g)) False = (ns, Fell_through True)" "lint ns" "g' = fx_g"
      "\<sigma>' = \<sigma>(fx_g := recompile ((\<sigma> fx_g)\<lparr>nodes := ns\<rparr>))"
    by blast
  from ns(4) have n: "nodes (\<sigma>' fx_g) = ns" and c: "code (\<sigma>' fx_g) = ns"
    by (simp_all add: recompile_def)
  from loop_fell_through_changed [OF ns(1)] have ne: "ns \<noteq> nodes (\<sigma> fx_g)" by auto
  with n have "nodes (\<sigma>' fx_g) \<noteq> nodes (\<sigma> fx_g)" by simp
  moreover from this have "\<sigma>' fx_g \<noteq> \<sigma> fx_g" by auto
  moreover from loop_frame [OF ns(1)] n
  have "map op (nodes (\<sigma>' fx_g)) = map op (nodes (\<sigma> fx_g))"
    "filter (\<lambda>n. op n \<noteq> ''output'') (nodes (\<sigma>' fx_g)) =
       filter (\<lambda>n. op n \<noteq> ''output'') (nodes (\<sigma> fx_g))"
    by simp_all
  moreover from ns(4) have "\<forall>r. r \<noteq> fx_g \<longrightarrow> \<sigma>' r = \<sigma> r" by simp
  ultimately show ?thesis using ns(2,3) n c by simp
qed

theorem rewrite_mutates_in_place_witness:
  "unwrap_single_tuple_return lint_any (store_of (graph_returning [Tuple [NodeRef ''x'']])) 0 =
     (fst (unwrap_single_tuple_return lint_any (store_of (graph_returning [Tuple [NodeRef ''x'']])) 0),
      Inr (Some 0)) \<and>
   nodes (fst (unwrap_single_tuple_return lint_any (store_of (graph_returning [Tuple [NodeRef ''x'']])) 0) 0) \<noteq>
     nodes (store_of (graph_returning [Tuple [NodeRef ''x'']]) 0) \<and>
   code (fst (unwrap_single_tuple_return lint_any (store_of (graph_returning [Tuple [NodeRef ''x'']])) 0) 0) =
     nodes (fst (unwrap_single_tuple_return lint_any (store_of (graph_returning [Tuple [NodeRef ''x'']])) 0) 0)"
proof -
  let ?G = "store_of (graph_returning [Tuple [NodeRef ''x'']])"
  have h: "unwrap_single_tuple_return lint_any ?G 0 =
      (fst (unwrap_single_tuple_return lint_any ?G 0), Inr (Some 0))"
    by (simp add: eval_single)
  from rewrite_mutates_in_place [OF h] h show ?thesis by blast
qed

section \<open>The recursive conversion\<close>

lemma convert_fails_iff:
  "isl (recursively_convert_to_numpy A v) =
     list_ex (\<lambda>l. \<not> recognized_leaf l \<or> \<not> transferable A l) (leaves v)"
  "isl (convert_elements A xs) =
     list_ex (\<lambda>l. \<not> recognized_leaf l \<or> \<not> transferable A l) (leaves_elements xs)"
  "isl (convert_items A kvs) =
     list_ex (\<lambda>l. \<not> recognized_leaf l \<or> \<not> transferable A l) (leaves_items kvs)"
  by (induction A v and A xs and A kvs
      rule: recursively_convert_to_numpy_convert_elements_convert_items.induct)
    (auto simp: recognized_leaf_def transferable_def split: sum.splits)

lemma convert_error_value:
  "recursively_convert_to_numpy A v = Inl err \<Longrightarrow>
     err = Exception ''Unexpected Python type'' \<or>
     (\<exists>b. DeviceArray b \<in> set (leaves v) \<and> A b = Inl err)"
  "convert_elements A xs = Inl err \<Longrightarrow>
     err = Exception ''Unexpected Python type'' \<or>
     (\<exists>b. DeviceArray b \<in> set (leaves_elements xs) \<and> A b = Inl err)"
  "convert_items A kvs = Inl err \<Longrightarrow>
     err = Exception ''Unexpected Python type'' \<or>
     (\<exists>b. DeviceArray b \<in> set (leaves_items kvs) \<and> A b = Inl err)"
  by (induction A v and A xs and A kvs
      rule: recursively_convert_to_numpy_convert_elements_convert_items.induct)
    (auto split: sum.splits)





text \<open>
  Claim C7, as amended. The conversion raises exactly when some leaf of the structure is
  not of a recognized type or is a device array on which \<^verbatim>\<open>np.asarray\<close> raises; what it
  raises is the \<^verbatim>\<open>Unexpected Python type\<close> exception or the exception of
  \<^verbatim>\<open>np.asarray\<close> for a device array of the structure. So for a structure on whose device
  arrays \<^verbatim>\<open>np.asarray\<close> returns, the conversion raises exactly when some leaf is not of
  a recognized type, and then the \<^verbatim>\<open>Unexpected Python type\<close> exception; otherwise it
  returns a value.
\<close>

theorem conversion_fails_iff_unrecognized_leaf:
  "((\<exists>err. recursively_convert_to_numpy np_asarray v = Inl err) =
      (\<exists>l\<in>set (leaves v). \<not> recognized_leaf l \<or> \<not> transferable np_asarray l)) \<and>
   (\<forall>err. recursively_convert_to_numpy np_asarray v = Inl err \<longrightarrow>
      err = Exception ''Unexpected Python type'' \<or>
      (\<exists>b. DeviceArray b \<in> set (leaves v) \<and> np_asarray b = Inl err)) \<and>
   ((\<forall>l\<in>set (leaves v). transferable np_asarray l) \<longrightarrow>
      ((\<exists>err. recursively_convert_to_numpy np_asarray v = Inl err) =
         (\<exists>l\<in>set (leaves v). \<not> recognized_leaf l)) \<and>
      (\<forall>err. recursively_convert_to_numpy np_asarray v = Inl err \<longrightarrow>
         err = Exception ''Unexpected Python type''))"
proof -
  let ?c = "recursively_convert_to_numpy np_asarray v"
  have "(\<exists>err. ?c = Inl err) = isl ?c"
    by (cases ?c) simp_all
  also have "\<dots> = (\<exists>l\<in>set (leaves v). \<not> recognized_leaf l \<or> \<not> transferable np_asarray l)"
    by (simp add: convert_fails_iff(1) list_ex_iff)
  finally have iff: "(\<exists>err. ?c = Inl err) =
      (\<exists>l\<in>set (leaves v). \<not> recognized_leaf l \<or> \<not> transferable np_asarray l)" .
  have val: "err = Exception ''Unexpected Python type'' \<or>
      (\<exists>b. DeviceArray b \<in> set (leaves v) \<and> np_asarray b = Inl err)" if "?c = Inl err" for err
    using that by (rule convert_error_value(1))
  have third: "((\<exists>err. ?c = Inl err) = (\<exists>l\<in>set (leaves v). \<not> recognized_leaf l)) \<and>
      (\<forall>err. ?c = Inl err \<longrightarrow> err = Exception ''Unexpected Python type'')"
    if t: "\<forall>l\<in>set (leaves v). transferable np_asarray l"
  proof (intro conjI allI impI)
    from iff t show "(\<exists>err. ?c = Inl err) = (\<exists>l\<in>set (leaves v). \<not> recognized_leaf l)"
      by blast
  next
    fix err
    assume e: "?c = Inl err"
    have "\<not> (\<exists>b. DeviceArray b \<in> set (leaves v) \<and> np_asarray b = Inl err)"
    proof
      assume "\<exists>b. DeviceArray b \<in> set (leaves v) \<and> np_asarray b = Inl err"
      then obtain b where b: "DeviceArray b \<in> set (leaves v)" "np_asarray b = Inl err"
        by blast
      from t b(1) have "transferable np_asarray (DeviceArray b)" by blast
      with b(2) show False by (simp add: transferable_def)
    qed
    with val [OF e] show "err = Exception ''Unexpected Python type''" by blast
  qed
  from iff val third show ?thesis by blast
qed

theorem conversion_fails_iff_unrecognized_leaf_witness:
  "list_all (transferable asarray_host) (leaves (PList [PInt 1, PDict [(PStr ''k'', PNone)]])) \<and>
   list_ex (\<lambda>l. \<not> recognized_leaf l) (leaves (PList [PInt 1, PDict [(PStr ''k'', PNone)]])) \<and>
   recursively_convert_to_numpy asarray_host (PList [PInt 1, PDict [(PStr ''k'', PNone)]]) =
     Inl (Exception ''Unexpected Python type'') \<and>
   list_all recognized_leaf (leaves (PList [PInt 1, PBool True])) \<and>
   recursively_convert_to_numpy asarray_host (PList [PInt 1, PBool True]) =
     Inr (PList [PInt 1, PBool True])"
proof -
  let ?bad = "PList [PInt 1, PDict [(PStr ''k'', PNone)]]"
  let ?good = "PList [PInt 1, PBool True]"
  have t: "\<forall>l\<in>set (leaves ?bad). transferable asarray_host l"
    by (simp add: transferable_def)
  have b: "\<exists>l\<in>set (leaves ?bad). \<not> recognized_leaf l"
    by (simp add: recognized_leaf_def)
  from conversion_fails_iff_unrecognized_leaf [of asarray_host ?bad] t b
  have first: "recursively_convert_to_numpy asarray_host ?bad =
      Inl (Exception ''Unexpected Python type'')"
    by blast
  have t': "\<forall>l\<in>set (leaves ?good). transferable asarray_host l"
    by (simp add: transferable_def)
  have g: "\<not> (\<exists>l\<in>set (leaves ?good). \<not> recognized_leaf l)"
    by (simp add: recognized_leaf_def)
  from conversion_fails_iff_unrecognized_leaf [of asarray_host ?good] t' g
  have "\<not> (\<exists>err. recursively_convert_to_numpy asarray_host ?good = Inl err)"
    by blast
  moreover have "recursively_convert_to_numpy asarray_host ?good = Inr ?good"
    by simp
  moreover from t have "list_all (transferable asarray_host) (leaves ?bad)"
    by (simp only: list_all_iff)
  moreover from b have "list_ex (\<lambda>l. \<not> recognized_leaf l) (leaves ?bad)"
    by (simp only: list_ex_iff)
  moreover from g have "list_all recognized_leaf (leaves ?good)"
    by (simp add: list_all_iff)
  ultimately show ?thesis using first by blast
qed

text \<open>
  The conversion also raises where every leaf is of a recognized type: a device array that
  is not marked for implicit transfer to the host makes \<^verbatim>\<open>np.asarray\<close> raise.
\<close>

theorem recognized_leaf_still_raises_counterexample:
  "list_all recognized_leaf (leaves (PList [DeviceArray (Buffer [1] [7])])) \<and>
   \<not> list_ex (\<lambda>l. \<not> recognized_leaf l) (leaves (PList [DeviceArray (Buffer [1] [7])])) \<and>
   recursively_convert_to_numpy asarray_refusing (PList [DeviceArray (Buffer [1] [7])]) =
     Inl (ValueError ''DeviceArray cannot be implicitly transferred to the host'') \<and>
   recursively_convert_to_numpy asarray_refusing (PList [DeviceArray (Buffer [1] [7])]) \<noteq>
     Inl (Exception ''Unexpected Python type'')"
  by (simp add: recognized_leaf_def asarray_refusing_def)

section \<open>The test driver\<close>

text \<open>
  Claim C8. With \<open>tests\<close> the registered tests that the filter matches, \<open>results\<close> what
  the framework returns for them on the chosen backend and \<open>xfail_set\<close> that backend's
  expected-failure set: the driver exits with status 1 exactly when no test matches or
  some result is a failure whose name is not in the expected-failure set, and with status
  0 otherwise; so when the only matching test fails and its name is in the set, the status
  is 0.
\<close>

theorem e2e_exit_status:
  assumes "tests = filter (\<lambda>t. re_match (filter_regex cl_args) (unique_name t)) registry"
    and "results = run_tests tests (case config cl_args of Dylib \<Rightarrow> ''dylib'' | Vmvx \<Rightarrow> ''vmvx'')"
    and "xfail_set = (case config cl_args of Dylib \<Rightarrow> DYLIB_XFAIL_SET | Vmvx \<Rightarrow> VMVX_XFAIL_SET)"
  shows "((exit_status (torchscript_e2e_main re_match run_tests registry cl_args) = 1) =
            (tests = [] \<or> (\<exists>r\<in>set results. failed r \<and> result_name r \<notin> xfail_set))) \<and>
         (exit_status (torchscript_e2e_main re_match run_tests registry cl_args) \<noteq> 1 \<longrightarrow>
            exit_status (torchscript_e2e_main re_match run_tests registry cl_args) = 0) \<and>
         (\<forall>t r. tests = [t] \<and> results = [r] \<and> result_name r = unique_name t \<and> failed r \<and>
                 unique_name t \<in> xfail_set \<longrightarrow>
            exit_status (torchscript_e2e_main re_match run_tests registry cl_args) = 0)"
  using assms
  by (cases "config cl_args")
    (auto simp: torchscript_e2e_main_def exit_status_def report_results_def list_ex_iff Let_def)

theorem e2e_exit_status_witness:
  "exit_status (torchscript_e2e_main match_prefix run_all_failing example_registry
      \<lparr>config = Dylib, filter_regex = ''Uniform'', verbose = False\<rparr>) = 0 \<and>
   exit_status (torchscript_e2e_main match_prefix run_all_failing example_registry
      \<lparr>config = Dylib, filter_regex = ''Add'', verbose = False\<rparr>) = 1 \<and>
   exit_status (torchscript_e2e_main match_prefix run_all_failing example_registry
      \<lparr>config = Vmvx, filter_regex = ''Conv'', verbose = False\<rparr>) = 1"
proof -
  let ?main = "torchscript_e2e_main match_prefix run_all_failing example_registry"
  let ?u = "\<lparr>config = Dylib, filter_regex = ''Uniform'', verbose = False\<rparr>"
  let ?a = "\<lparr>config = Dylib, filter_regex = ''Add'', verbose = False\<rparr>"
  let ?c = "\<lparr>config = Vmvx, filter_regex = ''Conv'', verbose = False\<rparr>"
  have u1: "[Test ''UniformModule_basic''] =
      filter (\<lambda>t. match_prefix (filter_regex ?u) (unique_name t)) example_registry"
    by (simp add: match_prefix_def example_registry_def)
  have u2: "[TestResult ''UniformModule_basic'' True] =
      run_all_failing [Test ''UniformModule_basic'']
        (case config ?u of Dylib \<Rightarrow> ''dylib'' | Vmvx \<Rightarrow> ''vmvx'')"
    by (simp add: run_all_failing_def)
  have u3: "DYLIB_XFAIL_SET = (case config ?u of Dylib \<Rightarrow> DYLIB_XFAIL_SET | Vmvx \<Rightarrow> VMVX_XFAIL_SET)"
    by simp
  have u4: "''UniformModule_basic'' \<in> DYLIB_XFAIL_SET"
    by (simp add: DYLIB_XFAIL_SET_def COMMON_RNG_XFAIL_SET_def)
  from e2e_exit_status
      [where re_match = match_prefix and run_tests = run_all_failing
        and registry = example_registry and cl_args = "?u", OF u1 u2 u3] u4 have first: "exit_status (?main ?u) = 0"
    by simp
  have a1: "[Test ''AddModule_basic''] =
      filter (\<lambda>t. match_prefix (filter_regex ?a) (unique_name t)) example_registry"
    by (simp add: match_prefix_def example_registry_def)
  have a2: "[TestResult ''AddModule_basic'' True] =
      run_all_failing [Test ''AddModule_basic'']
        (case config ?a of Dylib \<Rightarrow> ''dylib'' | Vmvx \<Rightarrow> ''vmvx'')"
    by (simp add: run_all_failing_def)
  have a3: "DYLIB_XFAIL_SET = (case config ?a of Dylib \<Rightarrow> DYLIB_XFAIL_SET | Vmvx \<Rightarrow> VMVX_XFAIL_SET)"
    by simp
  have a4: "''AddModule_basic'' \<notin> DYLIB_XFAIL_SET"
    by (simp add: DYLIB_XFAIL_SET_def COMMON_RNG_XFAIL_SET_def
        COMMON_TORCH_MLIR_LOWERING_XFAIL_SET_def)
  from e2e_exit_status
      [where re_match = match_prefix and run_tests = run_all_failing
        and registry = example_registry and cl_args = "?a", OF a1 a2 a3] a4 have second: "exit_status (?main ?a) = 1"
    by simp
  have c1: "[] = filter (\<lambda>t. match_prefix (filter_regex ?c) (unique_name t)) example_registry"
    by (simp add: match_prefix_def example_registry_def)
  from e2e_exit_status
      [where re_match = match_prefix and run_tests = run_all_failing
        and registry = example_registry and cl_args = "?c", OF c1 refl refl] have third: "exit_status (?main ?c) = 1"
    by simp
  from first second third show ?thesis by blast
qed

section \<open>The compile adapter\<close>

lemma unwrap_not_single_group:
  assumes "output_nodes (\<sigma> fx_g) = [out]" and "args out = [a]" and "\<not> single_group a"
  shows "unwrap_single_tuple_return lint \<sigma> fx_g = (\<sigma>, Inr None)"
proof -
  from single_output_split [OF assms(1)] obtain pre post where
    split: "nodes (\<sigma> fx_g) = pre @ out # post" "\<forall>n\<in>set pre. op n \<noteq> ''output''"
      "op out = ''output''" "\<forall>n\<in>set post. op n \<noteq> ''output''"
    by blast
  have "\<exists>e. unwrap_loop (nodes (\<sigma> fx_g)) False = (nodes (\<sigma> fx_g), e) \<and>
            (e = Returned_None \<or> e = Fell_through False)"
  proof (cases "is_group a")
    case False
    from loop_bare_single [OF split(2) split(4) split(3) assms(2) False] split(1)
    show ?thesis by simp
  next
    case True
    then obtain xs where xs: "a = Tuple xs" by (cases a) (simp_all add: is_group_def)
    with assms(3) have "length xs \<noteq> 1" by (simp add: single_group_def)
    from loop_return_none_single [OF split(2) split(3) _ this, of post False] assms(2) xs split(1)
    show ?thesis by simp
  qed
  then obtain e where "unwrap_loop (nodes (\<sigma> fx_g)) False = (nodes (\<sigma> fx_g), e)"
      "e = Returned_None \<or> e = Fell_through False"
    by blast
  then show ?thesis by (rule unwrap_none_unchanged)
qed

lemma unwrap_single_group:
  assumes "output_nodes (\<sigma> fx_g) = [out]" and "args out = [Tuple [x]]"
    and "unwrap_single_tuple_return lint \<sigma> fx_g = (\<sigma>', Inr opt)"
  shows "opt = Some fx_g"
proof -
  from single_output_split [OF assms(1)] obtain pre post where
    split: "nodes (\<sigma> fx_g) = pre @ out # post" "\<forall>n\<in>set pre. op n \<noteq> ''output''"
      "op out = ''output''" "\<forall>n\<in>set post. op n \<noteq> ''output''"
    by blast
  have "unwrap_loop (nodes (\<sigma> fx_g)) False = (pre @ out\<lparr>args := [x]\<rparr> # post, Fell_through True)"
    using loop_rewrite_single [OF split(2) split(4) split(3) assms(2)] split(1) by simp
  with assms(3) show ?thesis
    by (auto simp: unwrap_single_tuple_return_def Let_def split: if_splits)
qed

lemma torch_mlir_compiler_success:
  assumes "torch_mlir_compiler tc \<sigma> fx_graph example_inputs use_tracing = (\<sigma>', Inr fwd)"
  shows "\<exists>opt loaded_module.
           unwrap_single_tuple_return (graph_lint tc) \<sigma> fx_graph = (\<sigma>', Inr opt) \<and>
           compile_and_load tc (\<sigma>' (case opt of Some g \<Rightarrow> g | None \<Rightarrow> fx_graph))
             example_inputs use_tracing = Inr loaded_module \<and>
           fwd = forward loaded_module (opt \<noteq> None)"
  using assms
  by (auto simp: torch_mlir_compiler_def Let_def split: prod.splits sum.splits)

lemma eval_adapter_single:
  "torch_mlir_compiler toolchain_ok (store_of (graph_returning [Tuple [a]])) 0 ex True =
     ((store_of (graph_returning [Tuple [a]]))
        (0 := \<lparr>nodes = [placeholder_x, output_of [a]], code = [placeholder_x, output_of [a]]\<rparr>),
      Inr (forward echo_first True))"
proof -
  have l: "graph_lint toolchain_ok = lint_any" by (simp add: toolchain_ok_def)
  have c: "compile_and_load toolchain_ok gm ex True = Inr echo_first" for gm
    by (simp add: compile_and_load_def toolchain_ok_def)
  show ?thesis
    by (simp add: torch_mlir_compiler_def l eval_single c)
qed

lemma eval_adapter_not_single:
  assumes "\<not> single_group a"
  shows "torch_mlir_compiler tc (store_of (graph_returning [a])) 0 ex tr =
     (store_of (graph_returning [a]),
      case compile_and_load tc (graph_returning [a]) ex tr of
        Inl err \<Rightarrow> Inl err
      | Inr loaded_module \<Rightarrow> Inr (forward loaded_module False))"
proof -
  let ?B = "store_of (graph_returning [a])"
  have b1: "output_nodes (?B 0) = [output_of [a]]"
    by (simp add: output_nodes_def store_of_def graph_returning_def placeholder_x_def output_of_def)
  have b2: "args (output_of [a]) = [a]"
    by (simp add: output_of_def)
  have "unwrap_single_tuple_return (graph_lint tc) ?B 0 = (?B, Inr None)"
    by (rule unwrap_not_single_group [where \<sigma> = ?B and fx_g = 0, OF b1 b2 assms])
  then show ?thesis
    by (simp add: torch_mlir_compiler_def store_of_def split: sum.splits)
qed

lemma adapter_propagates_normalizer_error:
  assumes "snd (unwrap_single_tuple_return (graph_lint tc) \<sigma> fx_graph) = Inl err"
  shows "snd (torch_mlir_compiler tc \<sigma> fx_graph example_inputs use_tracing) = Inl err"
  using assms
  by (cases "unwrap_single_tuple_return (graph_lint tc) \<sigma> fx_graph")
    (simp add: torch_mlir_compiler_def)

text \<open>
  Claim C1. Let a graph with one output node, whose argument is \<open>a\<close>, be compiled through
  the adapter, and let the loaded artifact return \<open>result\<close> on some inputs, of the shape of
  the output argument of the graph it was compiled from. Then the forward function returns
  a value of the group-or-bare shape of \<open>a\<close>, the argument before normalization: when
  \<open>a\<close> is a one-element group, the one-element group around the artifact's result, and
  otherwise that result itself; in both cases with the empty group in place of a missing
  result.
\<close>

theorem forward_restores_shape:
  assumes "output_nodes (\<sigma> fx_graph) = [out]" and "args out = [a]"
    and "torch_mlir_compiler tc \<sigma> fx_graph example_inputs use_tracing = (\<sigma>', Inr fwd)"
    and "compile_and_load tc (\<sigma>' fx_graph) example_inputs use_tracing = Inr loaded_module"
    and "loaded_module inputs = Inr result"
    and "output_nodes (\<sigma>' fx_graph) = [out']"
    and "returns_shape_of result (hd (args out'))"
  shows "\<exists>v. fwd inputs = Inr v \<and> value_arity v = arg_arity a \<and>
             (single_group a \<longrightarrow> v = PTuple [if result = PNone then PTuple [] else result]) \<and>
             (\<not> single_group a \<longrightarrow> v = (if result = PNone then PTuple [] else result))"
proof -
  from torch_mlir_compiler_success [OF assms(3)] obtain opt loaded where
    u: "unwrap_single_tuple_return (graph_lint tc) \<sigma> fx_graph = (\<sigma>', Inr opt)"
    and l: "compile_and_load tc (\<sigma>' (case opt of Some g \<Rightarrow> g | None \<Rightarrow> fx_graph))
              example_inputs use_tracing = Inr loaded"
    and f: "fwd = forward loaded (opt \<noteq> None)"
    by blast
  have same: "(case opt of Some g \<Rightarrow> g | None \<Rightarrow> fx_graph) = fx_graph"
  proof (cases opt)
    case None
    then show ?thesis by simp
  next
    case (Some g)
    with u have "unwrap_single_tuple_return (graph_lint tc) \<sigma> fx_graph = (\<sigma>', Inr (Some g))"
      by simp
    from unwrap_returns_some [OF this] have "g = fx_graph" by blast
    with Some show ?thesis by simp
  qed
  with l assms(4) have loaded: "loaded = loaded_module" by simp
  let ?r = "if result = PNone then PTuple [] else result"
  show ?thesis
  proof (cases "single_group a")
    case True
    then obtain x where x: "a = Tuple [x]"
      by (cases a) (auto simp: single_group_def length_Suc_conv)
    with assms(2) have "args out = [Tuple [x]]" by simp
    from unwrap_single_group [where \<sigma> = \<sigma> and fx_g = fx_graph, OF assms(1) this u]
    have "opt \<noteq> None" by simp
    with f loaded assms(5) have "fwd inputs = Inr (PTuple [?r])"
      by (simp add: forward_def)
    moreover have "value_arity (PTuple [?r]) = arg_arity a"
      using x by (simp add: value_arity_def arg_arity_def)
    ultimately show ?thesis using True by simp
  next
    case False
    from unwrap_not_single_group
      [where \<sigma> = \<sigma> and fx_g = fx_graph and lint = "graph_lint tc", OF assms(1,2) False] u
    have s: "\<sigma>' = \<sigma>" and o: "opt = None" by simp_all
    with f loaded assms(5) have fw: "fwd inputs = Inr ?r"
      by (simp add: forward_def)
    from s assms(1,6) have "out' = out" by simp
    with assms(2,7) have "returns_shape_of result a" by simp
    then have "value_arity ?r = arg_arity a"
      by (auto simp: returns_shape_of_def value_arity_def split: if_splits)
    with fw False show ?thesis by simp
  qed
qed

theorem forward_restores_shape_witness:
  "snd (torch_mlir_compiler toolchain_ok (store_of (graph_returning [Tuple [NodeRef ''x'']])) 0
          [Tensor (Buffer [1] [7])] True) = Inr (forward echo_first True) \<and>
   echo_first [Tensor (Buffer [1] [7])] = Inr (Tensor (Buffer [1] [7])) \<and>
   returns_shape_of (Tensor (Buffer [1] [7])) (NodeRef ''x'') \<and>
   single_group (Tuple [NodeRef ''x'']) \<and>
   forward echo_first True [Tensor (Buffer [1] [7])] = Inr (PTuple [Tensor (Buffer [1] [7])]) \<and>
   value_arity (PTuple [Tensor (Buffer [1] [7])]) = arg_arity (Tuple [NodeRef ''x'']) \<and>
   snd (torch_mlir_compiler toolchain_ok (store_of (graph_returning [Tuple []])) 0 [] True) =
     Inr (forward echo_first False) \<and>
   echo_first [] = Inr PNone \<and>
   returns_shape_of PNone (Tuple []) \<and>
   \<not> single_group (Tuple []) \<and>
   forward echo_first False [] = Inr (PTuple []) \<and>
   value_arity (PTuple []) = arg_arity (Tuple [])"
proof -
  let ?G = "store_of (graph_returning [Tuple [NodeRef ''x'']])"
  let ?S = "?G(0 := \<lparr>nodes = [placeholder_x, output_of [NodeRef ''x'']],
                       code = [placeholder_x, output_of [NodeRef ''x'']]\<rparr>)"
  let ?t = "Tensor (Buffer [1] [7])"
  have h1: "output_nodes (?G 0) = [output_of [Tuple [NodeRef ''x'']]]"
    by (simp add: output_nodes_def store_of_def graph_returning_def placeholder_x_def output_of_def)
  have h2: "args (output_of [Tuple [NodeRef ''x'']]) = [Tuple [NodeRef ''x'']]"
    by (simp add: output_of_def)
  have h3: "torch_mlir_compiler toolchain_ok ?G 0 [?t] True = (?S, Inr (forward echo_first True))"
    by (rule eval_adapter_single)
  have h4: "compile_and_load toolchain_ok (?S 0) [?t] True = Inr echo_first"
    by (simp add: compile_and_load_def toolchain_ok_def)
  have h5: "echo_first [?t] = Inr ?t" by (simp add: echo_first_def)
  have h6: "output_nodes (?S 0) = [output_of [NodeRef ''x'']]"
    by (simp add: output_nodes_def placeholder_x_def output_of_def)
  have h7: "returns_shape_of ?t (hd (args (output_of [NodeRef ''x''])))"
    by (simp add: returns_shape_of_def value_arity_def arg_arity_def output_of_def)
  have sg: "single_group (Tuple [NodeRef ''x''])" by (simp add: single_group_def)
  from forward_restores_shape
    [where \<sigma> = ?G and fx_graph = 0 and tc = toolchain_ok and \<sigma>' = ?S, OF h1 h2 h3 h4 h5 h6 h7] sg
  have wrapped: "forward echo_first True [?t] = Inr (PTuple [?t]) \<and>
        value_arity (PTuple [?t]) = arg_arity (Tuple [NodeRef ''x''])"
    by auto
  from h3 have compiled: "snd (torch_mlir_compiler toolchain_ok ?G 0 [?t] True) =
      Inr (forward echo_first True)"
    by simp
  from h7 have shaped: "returns_shape_of ?t (NodeRef ''x'')" by (simp add: output_of_def)
  let ?E = "store_of (graph_returning [Tuple []])"
  have ng: "\<not> single_group (Tuple [])" by (simp add: single_group_def)
  have e1: "output_nodes (?E 0) = [output_of [Tuple []]]"
    by (simp add: output_nodes_def store_of_def graph_returning_def placeholder_x_def output_of_def)
  have e2: "args (output_of [Tuple []]) = [Tuple []]"
    by (simp add: output_of_def)
  have e4: "compile_and_load toolchain_ok (?E 0) [] True = Inr echo_first"
    by (simp add: compile_and_load_def toolchain_ok_def)
  have e3: "torch_mlir_compiler toolchain_ok ?E 0 [] True = (?E, Inr (forward echo_first False))"
    using e4 by (simp add: eval_adapter_not_single [OF ng] store_of_def)
  have e5: "echo_first [] = Inr PNone" by (simp add: echo_first_def)
  have e7: "returns_shape_of PNone (hd (args (output_of [Tuple []])))"
    by (simp add: returns_shape_of_def arg_arity_def output_of_def)
  from forward_restores_shape
    [where \<sigma> = ?E and fx_graph = 0 and tc = toolchain_ok and \<sigma>' = ?E, OF e1 e2 e3 e4 e5 e1 e7] ng
  have empty: "forward echo_first False [] = Inr (PTuple []) \<and>
        value_arity (PTuple []) = arg_arity (Tuple [])"
    by auto
  from e3 have compiled': "snd (torch_mlir_compiler toolchain_ok ?E 0 [] True) =
      Inr (forward echo_first False)"
    by simp
  from e7 have shaped': "returns_shape_of PNone (Tuple [])" by (simp add: output_of_def)
  from wrapped compiled shaped h5 sg empty compiled' shaped' e5 ng show ?thesis by blast
qed

section \<open>The benchmark driver\<close>

lemma invoke_in_scope_append:
  "invoke_in_scope (pre @ frames) cb \<sigma> =
     (case invoke_in_scope pre cb \<sigma> of
        (\<sigma>1, Return u) \<Rightarrow> invoke_in_scope frames cb \<sigma>1
      | (\<sigma>1, Raise err) \<Rightarrow> (\<sigma>1, Raise err)
      | (\<sigma>1, SysExit n) \<Rightarrow> (\<sigma>1, SysExit n))"
proof (induction pre arbitrary: \<sigma>)
  case Nil
  then show ?case by simp
next
  case (Cons f pre)
  obtain g ins where f: "f = (g, ins)" by (cases f)
  show ?case
  proof (cases "cb \<sigma> g ins")
    case (Pair \<sigma>' c)
    show ?thesis
    proof (cases c)
      case (Return fwd)
      with Pair f Cons.IH [of \<sigma>'] show ?thesis by (cases "fwd ins") simp_all
    qed (use Pair f in simp_all)
  qed
qed

lemma run_loop_add:
  "run_loop func (k + j) cb \<sigma> =
     (case run_loop func k cb \<sigma> of
        (\<sigma>1, Return u) \<Rightarrow> run_loop func j cb \<sigma>1
      | (\<sigma>1, Raise err) \<Rightarrow> (\<sigma>1, Raise err)
      | (\<sigma>1, SysExit n) \<Rightarrow> (\<sigma>1, SysExit n))"
proof (induction k arbitrary: \<sigma>)
  case 0
  then show ?case by simp
next
  case (Suc k)
  show ?case
  proof (cases "func cb \<sigma>")
    case (Pair \<sigma>' c)
    with Suc.IH [of \<sigma>'] show ?thesis by (cases c) simp_all
  qed
qed

lemma compiler_exits_on_error:
  assumes "exit_on_error cl_args"
    and "torch_mlir_compiler tc \<sigma> graph inputs (trace cl_args) = (\<sigma>', Inl err)"
  shows "compiler cl_args tc \<sigma> graph inputs = (\<sigma>', SysExit 1)"
  using assms by (simp add: compiler_def)


lemma run_exits_at_failing_compilation:
  assumes "exit_on_error cl_args" and "m = pre @ (g, ins) # rest" and "int k < num_iter"
    and "run_loop (invoke_in_scope m) k (compiler cl_args tc) \<sigma> = (\<sigma>1, Return ())"
    and "invoke_in_scope pre (compiler cl_args tc) \<sigma>1 = (\<sigma>2, Return ())"
    and "torch_mlir_compiler tc \<sigma>2 g ins (trace cl_args) = (\<sigma>3, Inl err)"
  shows "run (invoke_in_scope m) num_iter (compiler cl_args tc) \<sigma> = (\<sigma>3, SysExit 1)"
proof -
  let ?cb = "compiler cl_args tc"
  from assms(3) have "k < nat num_iter" by simp
  then obtain j where "nat num_iter = Suc (k + j)"
    using less_imp_Suc_add by blast
  then have j: "nat num_iter = k + Suc j" by simp
  have "invoke_in_scope ((g, ins) # rest) ?cb \<sigma>2 = (\<sigma>3, SysExit 1)"
    using compiler_exits_on_error [OF assms(1,6)] by simp
  with assms(5) have "invoke_in_scope m ?cb \<sigma>1 = (\<sigma>3, SysExit 1)"
    unfolding assms(2) invoke_in_scope_append by simp
  then have "run_loop (invoke_in_scope m) (Suc j) ?cb \<sigma>1 = (\<sigma>3, SysExit 1)"
    by simp
  with assms(4) show ?thesis
    unfolding run_def j run_loop_add by simp
qed

text \<open>
  Claim C9, as amended. When the named model is not in the zoo, \<^verbatim>\<open>main\<close> returns
  without setting a status, so the exit status is 0. When the model is found and
  exit-on-error is set, the exit status is 1 as soon as a compilation raises: whatever
  iterations and graphs came before it without incident, the callback ends the process
  with \<^verbatim>\<open>sys.exit(1)\<close>. When the whole run returns, the exit status is 0.
\<close>

theorem bench_exit_status:
  "(load_model_by_name (model cl_args) = None \<longrightarrow>
      torchbench_main load_model_by_name tc cl_args \<sigma> = (\<sigma>, Return ()) \<and>
      exit_status (snd (torchbench_main load_model_by_name tc cl_args \<sigma>)) = 0) \<and>
   (\<forall>Model m pre g ins rest k \<sigma>1 \<sigma>2 \<sigma>3 err.
      load_model_by_name (model cl_args) = Some Model \<and>
      Model (if train cl_args then ''train'' else ''eval'') (batchsize cl_args) = Inr m \<and>
      exit_on_error cl_args \<and> m = pre @ (g, ins) # rest \<and> int k < iters cl_args \<and>
      run_loop (invoke_in_scope m) k (compiler cl_args tc) \<sigma> = (\<sigma>1, Return ()) \<and>
      invoke_in_scope pre (compiler cl_args tc) \<sigma>1 = (\<sigma>2, Return ()) \<and>
      torch_mlir_compiler tc \<sigma>2 g ins (trace cl_args) = (\<sigma>3, Inl err) \<longrightarrow>
      torchbench_main load_model_by_name tc cl_args \<sigma> = (\<sigma>3, SysExit 1) \<and>
      exit_status (snd (torchbench_main load_model_by_name tc cl_args \<sigma>)) = 1) \<and>
   (\<forall>Model m \<sigma>'.
      load_model_by_name (model cl_args) = Some Model \<and>
      Model (if train cl_args then ''train'' else ''eval'') (batchsize cl_args) = Inr m \<and>
      run (invoke_in_scope m) (iters cl_args) (compiler cl_args tc) \<sigma> = (\<sigma>', Return ()) \<longrightarrow>
      torchbench_main load_model_by_name tc cl_args \<sigma> = (\<sigma>', Return ()) \<and>
      exit_status (snd (torchbench_main load_model_by_name tc cl_args \<sigma>)) = 0)"
proof (intro conjI allI impI)
  assume "load_model_by_name (model cl_args) = None"
  then show "torchbench_main load_model_by_name tc cl_args \<sigma> = (\<sigma>, Return ())"
    and "exit_status (snd (torchbench_main load_model_by_name tc cl_args \<sigma>)) = 0"
    by (simp_all add: torchbench_main_def exit_status_def)
next
  fix Model m pre g ins rest k \<sigma>1 \<sigma>2 \<sigma>3 err
  assume h: "load_model_by_name (model cl_args) = Some Model \<and>
      Model (if train cl_args then ''train'' else ''eval'') (batchsize cl_args) = Inr m \<and>
      exit_on_error cl_args \<and> m = pre @ (g, ins) # rest \<and> int k < iters cl_args \<and>
      run_loop (invoke_in_scope m) k (compiler cl_args tc) \<sigma> = (\<sigma>1, Return ()) \<and>
      invoke_in_scope pre (compiler cl_args tc) \<sigma>1 = (\<sigma>2, Return ()) \<and>
      torch_mlir_compiler tc \<sigma>2 g ins (trace cl_args) = (\<sigma>3, Inl err)"
  then have e: "exit_on_error cl_args" and m: "m = pre @ (g, ins) # rest"
    and k: "int k < iters cl_args"
    and r: "run_loop (invoke_in_scope m) k (compiler cl_args tc) \<sigma> = (\<sigma>1, Return ())"
    and i: "invoke_in_scope pre (compiler cl_args tc) \<sigma>1 = (\<sigma>2, Return ())"
    and c: "torch_mlir_compiler tc \<sigma>2 g ins (trace cl_args) = (\<sigma>3, Inl err)"
    by blast+
  have "run (invoke_in_scope m) (iters cl_args) (compiler cl_args tc) \<sigma> = (\<sigma>3, SysExit 1)"
    by (rule run_exits_at_failing_compilation [OF e m k r i c])
  with h show "torchbench_main load_model_by_name tc cl_args \<sigma> = (\<sigma>3, SysExit 1)"
    and "exit_status (snd (torchbench_main load_model_by_name tc cl_args \<sigma>)) = 1"
    by (simp_all add: torchbench_main_def exit_status_def)
next
  fix Model m \<sigma>'
  assume "load_model_by_name (model cl_args) = Some Model \<and>
      Model (if train cl_args then ''train'' else ''eval'') (batchsize cl_args) = Inr m \<and>
      run (invoke_in_scope m) (iters cl_args) (compiler cl_args tc) \<sigma> = (\<sigma>', Return ())"
  then show "torchbench_main load_model_by_name tc cl_args \<sigma> = (\<sigma>', Return ())"
    and "exit_status (snd (torchbench_main load_model_by_name tc cl_args \<sigma>)) = 0"
    by (simp_all add: torchbench_main_def exit_status_def)
qed

theorem bench_exit_status_witness:
  "exit_status
     (snd (torchbench_main example_zoo toolchain_ok (example_args ''no_such_model'' True)
             (store_of (graph_returning [NodeRef ''x''])))) = 0 \<and>
   torchbench_main example_zoo toolchain_unsupported (example_args ''resnet18'' True)
     (store_of (graph_returning [NodeRef ''x''])) =
     (store_of (graph_returning [NodeRef ''x'']), SysExit 1) \<and>
   exit_status
     (snd (torchbench_main example_zoo toolchain_unsupported (example_args ''resnet18'' True)
             (store_of (graph_returning [NodeRef ''x''])))) = 1 \<and>
   exit_status
     (snd (torchbench_main example_zoo toolchain_ok (example_args ''resnet18'' True)
             (store_of (graph_returning [NodeRef ''x''])))) = 0"
proof -
  let ?B = "store_of (graph_returning [NodeRef ''x''])"
  let ?t = "Tensor (Buffer [1] [7])"
  let ?Model = "\<lambda>(test::string) (batch_size::int). Inr [(0::nat, [?t])] :: error + captured"
  let ?no = "example_args ''no_such_model'' True"
  let ?yes = "example_args ''resnet18'' True"
  have n1: "example_zoo (model ?no) = None"
    by (simp add: example_zoo_def example_args_def)
  from bench_exit_status [of example_zoo ?no toolchain_ok ?B] n1
  have first: "exit_status (snd (torchbench_main example_zoo toolchain_ok ?no ?B)) = 0"
    by blast
  have y1: "example_zoo (model ?yes) = Some ?Model"
    by (simp add: example_zoo_def example_args_def)
  have y2: "?Model (if train ?yes then ''train'' else ''eval'') (batchsize ?yes) = Inr [(0, [?t])]"
    by simp
  have y3: "exit_on_error ?yes" by (simp add: example_args_def)
  have y4: "[(0::nat, [?t])] = [] @ (0, [?t]) # []" by simp
  have y5: "int 0 < iters ?yes" by (simp add: example_args_def)
  have y6: "run_loop (invoke_in_scope [(0, [?t])]) 0 (compiler ?yes toolchain_unsupported) ?B =
      (?B, Return ())"
    by simp
  have y7: "invoke_in_scope [] (compiler ?yes toolchain_unsupported) ?B = (?B, Return ())"
    by simp
  have y8: "torch_mlir_compiler toolchain_unsupported ?B 0 [?t] (trace ?yes) =
      (?B, Inl (Exception ''unsupported operation''))"
    by (simp add: eval_adapter_not_single single_group_def compile_and_load_def
        toolchain_unsupported_def toolchain_ok_def example_args_def store_of_def)
  from bench_exit_status [of example_zoo ?yes toolchain_unsupported ?B] y1 y2 y3 y4 y5 y6 y7 y8
  have second: "torchbench_main example_zoo toolchain_unsupported ?yes ?B = (?B, SysExit 1) \<and>
      exit_status (snd (torchbench_main example_zoo toolchain_unsupported ?yes ?B)) = 1"
    by blast
  have z: "run (invoke_in_scope [(0, [?t])]) (iters ?yes) (compiler ?yes toolchain_ok) ?B =
      (?B, Return ())"
    by (simp add: run_def example_args_def compiler_def eval_adapter_not_single single_group_def
        compile_and_load_def toolchain_ok_def forward_def echo_first_def)
  from bench_exit_status [of example_zoo ?yes toolchain_ok ?B] y1 y2 z
  have third: "exit_status (snd (torchbench_main example_zoo toolchain_ok ?yes ?B)) = 0"
    by blast
  from first second third show ?thesis by blast
qed

text \<open>
  The status for an unknown model is 0 and not 1: lines 97 to 99 print the message and
  return.
\<close>

theorem unknown_model_exits_zero_counterexample:
  "example_zoo (model (example_args ''no_such_model'' True)) = None \<and>
   exit_status
     (snd (torchbench_main example_zoo toolchain_ok (example_args ''no_such_model'' True)
             (store_of (graph_returning [NodeRef ''x''])))) = 0 \<and>
   exit_status
     (snd (torchbench_main example_zoo toolchain_ok (example_args ''no_such_model'' True)
             (store_of (graph_returning [NodeRef ''x''])))) \<noteq> 1"
  by (simp add: torchbench_main_def example_zoo_def example_args_def exit_status_def)

section \<open>The assertion on the output node\<close>

lemma loop_assert_single:
  assumes "\<forall>n\<in>set pre. op n \<noteq> ''output''" and "op out = ''output''"
    and "length (args out) \<noteq> 1"
  shows "unwrap_loop (pre @ out # post) u =
           (pre @ out # post, Raised (AssertionError ''Output node must have a single argument''))"
proof -
  have "unwrap_loop (out # post) u =
      (out # post, Raised (AssertionError ''Output node must have a single argument''))"
    using assms(2,3) by simp
  then show ?thesis
    using loop_skip_prefix [OF assms(1), of "out # post" u] by simp
qed

lemma unwrap_asserts_single:
  assumes "output_nodes (\<sigma> fx_g) = [out]" and "1 < length (args out)"
  shows "unwrap_single_tuple_return lint \<sigma> fx_g =
           (\<sigma>, Inl (AssertionError ''Output node must have a single argument''))"
proof -
  from single_output_split [OF assms(1)] obtain pre post where
    split: "nodes (\<sigma> fx_g) = pre @ out # post" "\<forall>n\<in>set pre. op n \<noteq> ''output''"
      "op out = ''output''"
    by blast
  from assms(2) have "length (args out) \<noteq> 1" by simp
  from loop_assert_single [OF split(2) split(3) this, of post False] split(1)
  have "unwrap_loop (nodes (\<sigma> fx_g)) False =
      (nodes (\<sigma> fx_g), Raised (AssertionError ''Output node must have a single argument''))"
    by simp
  then show ?thesis by (simp add: unwrap_single_tuple_return_def)
qed

text \<open>
  Claim C5, as amended. When the output node of a graph has more than one top-level
  argument, the normalizer raises the assertion error instead of returning a result and
  leaves the graph as it was, and the compile adapter lets the error pass. The compiler
  callback of the benchmark driver lets it pass too when exit-on-error is not set; when it
  is set, the callback catches the error like any other exception and ends the process
  with status 1. When every output node has exactly one top-level argument, the normalizer
  never raises the assertion error.
\<close>

theorem malformed_output_fails_loudly:
  "(\<forall>out. output_nodes (\<sigma> fx_g) = [out] \<and> 1 < length (args out) \<longrightarrow>
      unwrap_single_tuple_return (graph_lint tc) \<sigma> fx_g =
        (\<sigma>, Inl (AssertionError ''Output node must have a single argument'')) \<and>
      torch_mlir_compiler tc \<sigma> fx_g inputs (trace cl_args) =
        (\<sigma>, Inl (AssertionError ''Output node must have a single argument'')) \<and>
      (\<not> exit_on_error cl_args \<longrightarrow>
         compiler cl_args tc \<sigma> fx_g inputs =
           (\<sigma>, Raise (AssertionError ''Output node must have a single argument''))) \<and>
      (exit_on_error cl_args \<longrightarrow> compiler cl_args tc \<sigma> fx_g inputs = (\<sigma>, SysExit 1))) \<and>
   ((\<forall>n\<in>set (nodes (\<sigma> fx_g)). op n = ''output'' \<longrightarrow> length (args n) = 1) \<longrightarrow>
      (\<forall>m. snd (unwrap_single_tuple_return (graph_lint tc) \<sigma> fx_g) \<noteq> Inl (AssertionError m)))"
proof (intro conjI allI impI)
  fix out
  assume h: "output_nodes (\<sigma> fx_g) = [out] \<and> 1 < length (args out)"
  then have o: "output_nodes (\<sigma> fx_g) = [out]" and l: "1 < length (args out)"
    by blast+
  show u: "unwrap_single_tuple_return (graph_lint tc) \<sigma> fx_g =
      (\<sigma>, Inl (AssertionError ''Output node must have a single argument''))"
    by (rule unwrap_asserts_single [where \<sigma> = \<sigma> and fx_g = fx_g, OF o l])
  then show a: "torch_mlir_compiler tc \<sigma> fx_g inputs (trace cl_args) =
      (\<sigma>, Inl (AssertionError ''Output node must have a single argument''))"
    by (simp add: torch_mlir_compiler_def)
  {
    assume "\<not> exit_on_error cl_args"
    with a show "compiler cl_args tc \<sigma> fx_g inputs =
        (\<sigma>, Raise (AssertionError ''Output node must have a single argument''))"
      by (simp add: compiler_def)
  }
  {
    assume "exit_on_error cl_args"
    with a show "compiler cl_args tc \<sigma> fx_g inputs = (\<sigma>, SysExit 1)"
      by (simp add: compiler_def)
  }
next
  fix m
  assume ok: "\<forall>n\<in>set (nodes (\<sigma> fx_g)). op n = ''output'' \<longrightarrow> length (args n) = 1"
  show "snd (unwrap_single_tuple_return (graph_lint tc) \<sigma> fx_g) \<noteq> Inl (AssertionError m)"
  proof
    assume "snd (unwrap_single_tuple_return (graph_lint tc) \<sigma> fx_g) = Inl (AssertionError m)"
    from unwrap_assertion_from_loop [OF this] loop_no_assert [OF ok]
    show False by blast
  qed
qed

theorem malformed_output_fails_loudly_witness:
  "output_nodes (store_of (graph_returning [NodeRef ''x'', NodeRef ''x'']) 0) =
     [output_of [NodeRef ''x'', NodeRef ''x'']] \<and>
   1 < length (args (output_of [NodeRef ''x'', NodeRef ''x''])) \<and>
   unwrap_single_tuple_return lint_any (store_of (graph_returning [NodeRef ''x'', NodeRef ''x''])) 0 =
     (store_of (graph_returning [NodeRef ''x'', NodeRef ''x'']),
      Inl (AssertionError ''Output node must have a single argument'')) \<and>
   \<not> exit_on_error (example_args ''resnet18'' False) \<and>
   compiler (example_args ''resnet18'' False) toolchain_ok
     (store_of (graph_returning [NodeRef ''x'', NodeRef ''x''])) 0 [] =
     (store_of (graph_returning [NodeRef ''x'', NodeRef ''x'']),
      Raise (AssertionError ''Output node must have a single argument'')) \<and>
   exit_on_error (example_args ''resnet18'' True) \<and>
   compiler (example_args ''resnet18'' True) toolchain_ok
     (store_of (graph_returning [NodeRef ''x'', NodeRef ''x''])) 0 [] =
     (store_of (graph_returning [NodeRef ''x'', NodeRef ''x'']), SysExit 1) \<and>
   list_all (\<lambda>n. op n = ''output'' \<longrightarrow> length (args n) = 1)
     (nodes (store_of (graph_returning [Tuple [NodeRef ''x'']]) 0)) \<and>
   (\<forall>m. snd (unwrap_single_tuple_return lint_any (store_of (graph_returning [Tuple [NodeRef ''x'']])) 0) \<noteq>
      Inl (AssertionError m))"
proof -
  let ?M = "store_of (graph_returning [NodeRef ''x'', NodeRef ''x''])"
  let ?G = "store_of (graph_returning [Tuple [NodeRef ''x'']])"
  let ?off = "example_args ''resnet18'' False"
  let ?on = "example_args ''resnet18'' True"
  have l: "graph_lint toolchain_ok = lint_any" by (simp add: toolchain_ok_def)
  have m1: "output_nodes (?M 0) = [output_of [NodeRef ''x'', NodeRef ''x'']]"
    by (simp add: output_nodes_def store_of_def graph_returning_def placeholder_x_def output_of_def)
  have m2: "1 < length (args (output_of [NodeRef ''x'', NodeRef ''x'']))"
    by (simp add: output_of_def)
  have off: "\<not> exit_on_error ?off" by (simp add: example_args_def)
  have on: "exit_on_error ?on" by (simp add: example_args_def)
  have g1: "\<forall>n\<in>set (nodes (?G 0)). op n = ''output'' \<longrightarrow> length (args n) = 1"
    by (simp add: store_of_def graph_returning_def placeholder_x_def output_of_def)
  from malformed_output_fails_loudly
    [where \<sigma> = ?M and fx_g = 0 and tc = toolchain_ok and cl_args = ?off and inputs = "[]"]
    m1 m2 off l
  have first: "unwrap_single_tuple_return lint_any ?M 0 =
      (?M, Inl (AssertionError ''Output node must have a single argument''))"
    and second: "compiler ?off toolchain_ok ?M 0 [] =
      (?M, Raise (AssertionError ''Output node must have a single argument''))"
    by auto
  from malformed_output_fails_loudly
    [where \<sigma> = ?M and fx_g = 0 and tc = toolchain_ok and cl_args = ?on and inputs = "[]"]
    m1 m2 on
  have third: "compiler ?on toolchain_ok ?M 0 [] = (?M, SysExit 1)"
    by auto
  from malformed_output_fails_loudly
    [where \<sigma> = ?G and fx_g = 0 and tc = toolchain_ok and cl_args = ?on and inputs = "[]"] g1 l
  have fourth: "\<forall>m. snd (unwrap_single_tuple_return lint_any ?G 0) \<noteq> Inl (AssertionError m)"
    by auto
  from g1 have g1': "list_all (\<lambda>n. op n = ''output'' \<longrightarrow> length (args n) = 1) (nodes (?G 0))"
    by (simp add: list_all_iff)
  from m1 m2 first off second on third g1' fourth show ?thesis by blast
qed

text \<open>
  The assertion error is caught on one path: with exit-on-error set, the callback's
  \<^verbatim>\<open>except Exception\<close> takes the error that the normalizer raised for an output node with
  two arguments, and the process ends with \<^verbatim>\<open>sys.exit(1)\<close> in place of the uncaught
  error.
\<close>

theorem assertion_caught_under_exit_on_error_counterexample:
  "snd (unwrap_single_tuple_return lint_any
          (store_of (graph_returning [NodeRef ''x'', NodeRef ''x''])) 0) =
     Inl (AssertionError ''Output node must have a single argument'') \<and>
   snd (compiler (example_args ''resnet18'' True) toolchain_ok
          (store_of (graph_returning [NodeRef ''x'', NodeRef ''x''])) 0 []) = SysExit 1 \<and>
   snd (compiler (example_args ''resnet18'' True) toolchain_ok
          (store_of (graph_returning [NodeRef ''x'', NodeRef ''x''])) 0 []) \<noteq>
     Raise (AssertionError ''Output node must have a single argument'')"
  by (simp add: compiler_def torch_mlir_compiler_def unwrap_single_tuple_return_def
      example_args_def toolchain_ok_def store_of_def graph_returning_def placeholder_x_def
      output_of_def)

end
